theory Spec2Isabelle
  imports Complex_Main "HOL-Library.Word"
begin

section \<open>JavaScript values used by both modules\<close>

text \<open>
  Both source files look strings up in object literals (\<^verbatim>\<open>this.providers[model]\<close>,
  \<^verbatim>\<open>qualityMap[gptImageQuality]\<close>, \<^verbatim>\<open>envKeys[provider]\<close>). An object literal has
  \<^verbatim>\<open>Object.prototype\<close> as its prototype, so a lookup finds the literal's own keys first and the
  prototype's members (\<^verbatim>\<open>toString\<close>, \<^verbatim>\<open>constructor\<close>, ...) next; only then is the result
  \<^verbatim>\<open>undefined\<close>. The inherited members are functions, or for \<^verbatim>\<open>__proto__\<close> the prototype
  object itself: none of them is a string and every one of them is truthy.
\<close>

datatype 'a jsval = Val 'a | Inherited string | Undefined | Null

definition Object_prototype_keys :: "string list" where
  "Object_prototype_keys =
     [''constructor'', ''__defineGetter__'', ''__defineSetter__'', ''hasOwnProperty'',
      ''__lookupGetter__'', ''__lookupSetter__'', ''isPrototypeOf'', ''propertyIsEnumerable'',
      ''toString'', ''valueOf'', ''__proto__'', ''toLocaleString'']"

text \<open>\<^verbatim>\<open>obj[k]\<close> for an object literal given as the list of its own keys and values.\<close>

definition js_get :: "(string \<times> 'a) list \<Rightarrow> string \<Rightarrow> 'a jsval" where
  "js_get obj k =
     (case map_of obj k of
        Some v \<Rightarrow> Val v
      | None \<Rightarrow> if k \<in> set Object_prototype_keys then Inherited k else Undefined)"

text \<open>
  An optional string (a field that may be \<^verbatim>\<open>undefined\<close>) is falsy when it is absent or empty.
  \<open>js_or s d\<close> is \<^verbatim>\<open>s || d\<close>.
\<close>

definition truthy :: "string option \<Rightarrow> bool" where
  "truthy s = (case s of None \<Rightarrow> False | Some v \<Rightarrow> v \<noteq> [])"

definition js_or :: "string option \<Rightarrow> string \<Rightarrow> string" where
  "js_or s d = (if truthy s then the s else d)"

text \<open>
  Numbers are modelled by the rational that their decimal notation denotes (no arithmetic
  is done on them; \<^verbatim>\<open>NaN\<close> is \<open>None\<close>). \<^verbatim>\<open>parseInt(x)\<close> reads the integer at the head of
  the number's string form. From \<open>10\<^sup>-\<^sup>6\<close> up to \<open>10\<^sup>2\<^sup>1\<close> the string is in positional
  notation and the result is the number truncated towards zero; outside that range the
  string is in exponent notation (\<^verbatim>\<open>1e+21\<close>, \<^verbatim>\<open>5e-7\<close>) and the result is its leading digit.
\<close>

function leading_digit_large :: "rat \<Rightarrow> int" where
  "leading_digit_large a = (if a < 10 then \<lfloor>a\<rfloor> else leading_digit_large (a / 10))"
  by pat_completeness auto
termination
proof (relation "measure (\<lambda>a. nat \<lfloor>a\<rfloor>)")
  show "wf (measure (\<lambda>a::rat. nat \<lfloor>a\<rfloor>))" by simp
next
  fix a :: rat
  assume "\<not> a < 10"
  then have a: "10 \<le> a" by simp
  then have "\<lfloor>a / 10\<rfloor> < \<lfloor>a\<rfloor>"
    by (simp add: floor_less_iff) linarith
  moreover have "0 < \<lfloor>a\<rfloor>" using a by linarith
  ultimately show "(a / 10, a) \<in> measure (\<lambda>a. nat \<lfloor>a\<rfloor>)"
    by simp
qed

function leading_digit_small :: "rat \<Rightarrow> int" where
  "leading_digit_small a =
     (if a \<le> 0 \<or> 1 \<le> a then \<lfloor>a\<rfloor> else leading_digit_small (a * 10))"
  by pat_completeness auto
termination
proof (relation "measure (\<lambda>a. nat \<lceil>1 / a\<rceil>)")
  show "wf (measure (\<lambda>a::rat. nat \<lceil>1 / a\<rceil>))" by simp
next
  fix a :: rat
  assume "\<not> (a \<le> 0 \<or> 1 \<le> a)"
  then have a: "0 < a" "a < 1" by simp_all
  then have "1 < 1 / a" by simp
  then have c: "2 \<le> \<lceil>1 / a\<rceil>" by linarith
  have t: "(of_int k / 10 :: rat) \<le> of_int (k - 1)" if "2 \<le> k" for k :: int
  proof -
    have "(2 :: rat) \<le> of_int k"
      using that by (metis of_int_le_iff of_int_numeral)
    then show ?thesis by simp
  qed
  have "1 / (a * 10) = (1 / a) / 10" by simp
  also have "\<dots> \<le> of_int \<lceil>1 / a\<rceil> / 10"
    by (simp add: divide_right_mono)
  also have "\<dots> \<le> of_int (\<lceil>1 / a\<rceil> - 1)"
    using c by (rule t)
  finally have "\<lceil>1 / (a * 10)\<rceil> \<le> \<lceil>1 / a\<rceil> - 1"
    by (simp only: ceiling_le_iff)
  with c have "0 < \<lceil>1 / a\<rceil> \<and> \<lceil>1 / (a * 10)\<rceil> < \<lceil>1 / a\<rceil>"
    by linarith
  then have "nat \<lceil>1 / (a * 10)\<rceil> < nat \<lceil>1 / a\<rceil>"
    by (simp only: zless_nat_conj)
  then show "(a * 10, a) \<in> measure (\<lambda>a. nat \<lceil>1 / a\<rceil>)"
    by (simp only: in_measure)
qed

definition parseInt_num :: "rat \<Rightarrow> int" where
  "parseInt_num r =
     (let a = \<bar>r\<bar>;
          n = (if a = 0 then 0
               else if 10 ^ 21 \<le> a then leading_digit_large a
               else if a < 1 / 10 ^ 6 then leading_digit_small a
               else \<lfloor>a\<rfloor>)
      in if r < 0 then - n else n)"

definition parseInt :: "rat option \<Rightarrow> int option" where
  "parseInt x = (case x of None \<Rightarrow> None | Some r \<Rightarrow> Some (parseInt_num r))"

text \<open>
  \<^verbatim>\<open>parseFloat(x)\<close> reads the whole string form back and returns the number itself.
  \<^verbatim>\<open>parseInt(x) || d\<close> and \<^verbatim>\<open>parseFloat(x) || d\<close> give \<open>d\<close> for \<^verbatim>\<open>NaN\<close> and for \<^verbatim>\<open>0\<close>,
  both falsy.
\<close>

definition parseFloat :: "rat option \<Rightarrow> rat option" where
  "parseFloat x = (case x of None \<Rightarrow> None | Some r \<Rightarrow> Some r)"

definition js_or_num :: "('a::zero) option \<Rightarrow> 'a \<Rightarrow> 'a" where
  "js_or_num x d = (case x of None \<Rightarrow> d | Some n \<Rightarrow> if n = 0 then d else n)"

text \<open>\<^verbatim>\<open>s.includes(t)\<close>: \<open>t\<close> occurs in \<open>s\<close> as a contiguous run.\<close>

fun starts_with :: "string \<Rightarrow> string \<Rightarrow> bool" where
  "starts_with s [] = True"
| "starts_with [] (c # t) = False"
| "starts_with (d # s) (c # t) = (d = c \<and> starts_with s t)"

fun str_includes :: "string \<Rightarrow> string \<Rightarrow> bool" where
  "str_includes [] t = (t = [])"
| "str_includes (d # s) t = (starts_with (d # s) t \<or> str_includes s t)"

datatype js_error = Error string

section \<open>llmService.js\<close>

subsection \<open>The provider table\<close>

record provider_config =
  cfg_provider :: string
  cfg_endpoint :: string
  cfg_model :: string
  cfg_type :: string

definition providers :: "(string \<times> provider_config) list" where
  "providers =
    [(''gpt-3.5-turbo'',
        \<lparr>cfg_provider = ''openai'', cfg_endpoint = ''https://api.openai.com/v1/chat/completions'',
         cfg_model = ''gpt-3.5-turbo'', cfg_type = ''text''\<rparr>),
     (''gpt-4'',
        \<lparr>cfg_provider = ''openai'', cfg_endpoint = ''https://api.openai.com/v1/chat/completions'',
         cfg_model = ''gpt-4'', cfg_type = ''text''\<rparr>),
     (''gpt-4-turbo-preview'',
        \<lparr>cfg_provider = ''openai'', cfg_endpoint = ''https://api.openai.com/v1/chat/completions'',
         cfg_model = ''gpt-4-turbo-preview'', cfg_type = ''text''\<rparr>),
     (''dall-e-3'',
        \<lparr>cfg_provider = ''openai'', cfg_endpoint = ''https://api.openai.com/v1/images/generations'',
         cfg_model = ''dall-e-3'', cfg_type = ''image''\<rparr>),
     (''dall-e-2'',
        \<lparr>cfg_provider = ''openai'', cfg_endpoint = ''https://api.openai.com/v1/images/generations'',
         cfg_model = ''dall-e-2'', cfg_type = ''image''\<rparr>),
     (''gpt-image-1'',
        \<lparr>cfg_provider = ''openai'', cfg_endpoint = ''https://api.openai.com/v1/images/generations'',
         cfg_model = ''gpt-image-1'', cfg_type = ''image''\<rparr>),
     (''claude-3-sonnet'',
        \<lparr>cfg_provider = ''anthropic'', cfg_endpoint = ''https://api.anthropic.com/v1/messages'',
         cfg_model = ''claude-3-sonnet-20240229'', cfg_type = ''text''\<rparr>),
     (''claude-3-opus'',
        \<lparr>cfg_provider = ''anthropic'', cfg_endpoint = ''https://api.anthropic.com/v1/messages'',
         cfg_model = ''claude-3-opus-20240229'', cfg_type = ''text''\<rparr>),
     (''claude-3-haiku'',
        \<lparr>cfg_provider = ''anthropic'', cfg_endpoint = ''https://api.anthropic.com/v1/messages'',
         cfg_model = ''claude-3-haiku-20240307'', cfg_type = ''text''\<rparr>)]"

text \<open>\<^verbatim>\<open>validateModel\<close> asks for own keys only: \<^verbatim>\<open>Object.keys(this.providers).includes(model)\<close>.\<close>

definition validateModel :: "string \<Rightarrow> bool" where
  "validateModel model = (model \<in> set (map fst providers))"

subsection \<open>Requests and replies\<close>

record message =
  role :: string
  content :: string

record settings =
  max_tokens :: "rat option"
  temperature :: "rat option"
  image_size :: "string option"
  image_quality :: "string option"
  image_style :: "string option"

record api_keys =
  openai :: "string option"
  anthropic :: "string option"

text \<open>
  The body posted to a provider: the chat body of \<^verbatim>\<open>callOpenAI\<close> and \<^verbatim>\<open>callAnthropic\<close>
  (\<^verbatim>\<open>system\<close> is set by the latter only), or the image body of \<^verbatim>\<open>generateImage\<close>. An image
  field that the source never assigns is \<open>Undefined\<close>; the source's pass that deletes
  \<^verbatim>\<open>undefined\<close> entries changes nothing in this representation.
\<close>

record chat_payload =
  cp_model :: string
  cp_messages :: "message list"
  cp_max_tokens :: int
  cp_temperature :: rat
  cp_system :: "string option"

record image_payload =
  ip_model :: string
  ip_prompt :: string
  ip_n :: nat
  ip_size :: string
  ip_quality :: "string jsval"
  ip_style :: "string jsval"

datatype payload = Chat chat_payload | Image image_payload

record request =
  url :: string
  body :: payload
  headers :: "(string \<times> string) list"
  timeout :: nat

type_synonym usage = "(string \<times> nat) list"

record image_datum =
  d_url :: "string option"
  d_b64_json :: "string option"
  d_revised_prompt :: "string option"

text \<open>
  What \<^verbatim>\<open>response.data\<close> may hold: a chat completion (the \<^verbatim>\<open>message.content\<close> of each
  choice), an Anthropic reply (the \<^verbatim>\<open>text\<close> of each content block), or an image reply
  (\<^verbatim>\<open>data\<close> may be missing).
\<close>

datatype response_data =
    ChatCompletion "string list" "usage option"
  | AnthropicReply "string list" "usage option"
  | ImageReply "image_datum list option"

text \<open>
  What a failed \<^verbatim>\<open>axios.post\<close> throws: \<^verbatim>\<open>error.message\<close>, and when the provider answered,
  \<^verbatim>\<open>error.response.data.error.message\<close> and \<^verbatim>\<open>error.response.data.error.type\<close>.
\<close>

record axios_error =
  e_message :: string
  e_response_message :: "string option"
  e_response_type :: "string option"

type_synonym axios = "request \<Rightarrow> axios_error + response_data"

record response =
  r_content :: string
  r_type :: string
  r_model :: string
  r_usage :: "usage option"
  r_provider :: string
  r_prompt :: "string option"
  r_revised_prompt :: "string option"

text \<open>
  Every entry point returns the requests it posted, in order, together with what the promise
  settles to: \<open>Inl\<close> the thrown error, \<open>Inr\<close> the normalized response.
\<close>

type_synonym outcome = "request list \<times> (js_error + response)"

definition throw :: "string \<Rightarrow> outcome" where
  "throw msg = ([], Inl (Error msg))"

subsection \<open>generateImage\<close>

text \<open>The \<^verbatim>\<open>qualityMap\<close> literal of the \<^verbatim>\<open>gpt-image-1\<close> branch.\<close>

definition qualityMap :: "(string \<times> string) list" where
  "qualityMap =
     [(''standard'', ''medium''), (''hd'', ''high''), (''low'', ''low''),
      (''medium'', ''medium''), (''high'', ''high'')]"

text \<open>
  \<^verbatim>\<open>qualityMap[gptImageQuality] || 'high'\<close>: the own values are non-empty strings and the
  inherited members are objects, all truthy; only \<^verbatim>\<open>undefined\<close> gives the default.
\<close>

definition gpt_image_quality :: "settings \<Rightarrow> string jsval" where
  "gpt_image_quality st =
     (let gptImageQuality = js_or (image_quality st) ''high'' in
      case js_get qualityMap gptImageQuality of
        Val q \<Rightarrow> if q = [] then Val ''high'' else Val q
      | Inherited k \<Rightarrow> Inherited k
      | Undefined \<Rightarrow> Val ''high''
      | Null \<Rightarrow> Val ''high'')"

definition image_payload_of :: "string \<Rightarrow> provider_config \<Rightarrow> string \<Rightarrow> settings \<Rightarrow> image_payload" where
  "image_payload_of model modelConfig prompt st =
     \<lparr>ip_model = cfg_model modelConfig,
      ip_prompt = prompt,
      ip_n = 1,
      ip_size = js_or (image_size st) ''1024x1024'',
      ip_quality =
        (if model = ''dall-e-3'' then Val (js_or (image_quality st) ''standard'')
         else if model = ''gpt-image-1'' then gpt_image_quality st
         else Undefined),
      ip_style =
        (if model = ''dall-e-3'' then Val (js_or (image_style st) ''natural'') else Undefined)\<rparr>"

definition image_request :: "string \<Rightarrow> provider_config \<Rightarrow> string \<Rightarrow> string \<Rightarrow> settings \<Rightarrow> request" where
  "image_request model modelConfig prompt apiKey st =
     \<lparr>url = cfg_endpoint modelConfig,
      body = Image (image_payload_of model modelConfig prompt st),
      headers = [(''Authorization'', ''Bearer '' @ apiKey), (''Content-Type'', ''application/json'')],
      timeout = (if model = ''gpt-image-1'' then 300000 else 60000)\<rparr>"

text \<open>\<^verbatim>\<open>response.data.data?.[0]\<close>: the first image entry, when there is one.\<close>

definition first_image :: "response_data \<Rightarrow> image_datum option" where
  "first_image d =
     (case d of
        ImageReply (Some (x # xs)) \<Rightarrow> Some x
      | _ \<Rightarrow> None)"

text \<open>
  The value of \<^verbatim>\<open>imageUrl\<close> after the base64 step: the entry's \<^verbatim>\<open>url\<close>, or when that is
  falsy and \<^verbatim>\<open>b64_json\<close> is truthy, the data URL built from it.
\<close>

definition image_url :: "image_datum option \<Rightarrow> string option" where
  "image_url imageData =
     (let imageUrl = (case imageData of None \<Rightarrow> None | Some x \<Rightarrow> d_url x);
          b64 = (case imageData of None \<Rightarrow> None | Some x \<Rightarrow> d_b64_json x)
      in if \<not> truthy imageUrl \<and> truthy b64 then Some (''data:image/png;base64,'' @ the b64)
         else imageUrl)"

text \<open>
  The body of the \<^verbatim>\<open>try\<close> block after the post has answered: \<open>Inl\<close> is the error it throws
  (caught by the block's own \<^verbatim>\<open>catch\<close>), \<open>Inr\<close> the value it returns.
\<close>

definition image_response :: "string \<Rightarrow> string \<Rightarrow> response_data \<Rightarrow> axios_error + response" where
  "image_response model prompt d =
     (let imageData = first_image d;
          imageUrl = image_url imageData;
          revisedPrompt =
            (case imageData of None \<Rightarrow> None
             | Some x \<Rightarrow> if truthy (d_revised_prompt x) then d_revised_prompt x else None)
      in if \<not> truthy imageUrl
         then Inl \<lparr>e_message = ''No image URL found in API response'',
                   e_response_message = None, e_response_type = None\<rparr>
         else Inr \<lparr>r_content = the imageUrl, r_type = ''image'', r_model = model,
                   r_usage = None, r_provider = ''openai'', r_prompt = Some prompt,
                   r_revised_prompt = revisedPrompt\<rparr>)"

text \<open>The \<^verbatim>\<open>catch\<close> block of \<^verbatim>\<open>generateImage\<close>: what it rethrows for a caught error.\<close>

definition image_catch :: "string \<Rightarrow> axios_error \<Rightarrow> js_error" where
  "image_catch model e =
     (if str_includes (e_message e) ''No image URL found''
      then Error (''Image generation failed for '' @ model
                    @ '': Response structure issue - check logs for details'')
      else Error (''Image generation failed: '' @ js_or (e_response_message e) (e_message e)))"

definition generateImage :: "axios \<Rightarrow> string \<Rightarrow> string \<Rightarrow> string option \<Rightarrow> settings \<Rightarrow> outcome" where
  "generateImage post model prompt apiKey st =
     (if \<not> truthy apiKey then throw ''OpenAI API key not configured''
      else case js_get providers model of
        Val modelConfig \<Rightarrow>
          if cfg_type modelConfig \<noteq> ''image'' then throw (''Invalid image model: '' @ model)
          else
            (let req = image_request model modelConfig prompt (the apiKey) st in
             case post req of
               Inl e \<Rightarrow> ([req], Inl (image_catch model e))
             | Inr d \<Rightarrow>
                 (case image_response model prompt d of
                    Inl e \<Rightarrow> ([req], Inl (image_catch model e))
                  | Inr r \<Rightarrow> ([req], Inr r)))
      | _ \<Rightarrow> throw (''Invalid image model: '' @ model))"

subsection \<open>callOpenAI\<close>

definition openai_payload :: "string \<Rightarrow> message list \<Rightarrow> settings \<Rightarrow> chat_payload" where
  "openai_payload model messages st =
     \<lparr>cp_model = model,
      cp_messages = map (\<lambda>msg. \<lparr>role = role msg, content = content msg\<rparr>) messages,
      cp_max_tokens = js_or_num (parseInt (max_tokens st)) 2000,
      cp_temperature = js_or_num (parseFloat (temperature st)) (7 / 10),
      cp_system = None\<rparr>"

text \<open>
  \<^verbatim>\<open>error.message\<close> of the \<^verbatim>\<open>TypeError\<close> that reading a reply of the wrong shape raises inside
  the \<^verbatim>\<open>try\<close> block.
\<close>

definition type_error :: "string \<Rightarrow> axios_error" where
  "type_error prop =
     \<lparr>e_message = ''Cannot read properties of undefined (reading '' @ [CHR 0x27] @ prop
                    @ [CHR 0x27] @ '')'',
      e_response_message = None, e_response_type = None\<rparr>"

definition openai_response :: "string \<Rightarrow> response_data \<Rightarrow> axios_error + response" where
  "openai_response model d =
     (case d of
        ChatCompletion choices u \<Rightarrow>
          (case choices of
             [] \<Rightarrow> Inl (type_error ''message'')
           | completion # rest \<Rightarrow>
               Inr \<lparr>r_content = completion, r_type = ''text'', r_model = model, r_usage = u,
                    r_provider = ''openai'', r_prompt = None, r_revised_prompt = None\<rparr>)
      | _ \<Rightarrow> Inl (type_error ''0''))"

definition callOpenAI :: "axios \<Rightarrow> string \<Rightarrow> string \<Rightarrow> message list \<Rightarrow> string option \<Rightarrow> settings \<Rightarrow> outcome" where
  "callOpenAI post endpoint model messages apiKey st =
     (if \<not> truthy apiKey then throw ''OpenAI API key not configured''
      else
        (let req = \<lparr>url = endpoint, body = Chat (openai_payload model messages st),
                    headers = [(''Authorization'', ''Bearer '' @ the apiKey),
                               (''Content-Type'', ''application/json'')],
                    timeout = 30000\<rparr>;
             rethrow = (\<lambda>e. Error (''OpenAI API Error: ''
                                      @ js_or (e_response_message e) (e_message e)))
         in case post req of
              Inl e \<Rightarrow> ([req], Inl (rethrow e))
            | Inr d \<Rightarrow>
                (case openai_response model d of
                   Inl e \<Rightarrow> ([req], Inl (rethrow e))
                 | Inr r \<Rightarrow> ([req], Inr r))))"

subsection \<open>callAnthropic\<close>

text \<open>
  \<^verbatim>\<open>messages.find(msg => msg.role === 'system')\<close> is the first system message wherever it
  stands; \<^verbatim>\<open>messages.filter(msg => msg.role !== 'system')\<close> drops every system message.
\<close>

definition anthropic_payload :: "string \<Rightarrow> message list \<Rightarrow> settings \<Rightarrow> chat_payload" where
  "anthropic_payload model messages st =
     (let systemMessage = find (\<lambda>msg. role msg = ''system'') messages;
          conversationMessages = filter (\<lambda>msg. role msg \<noteq> ''system'') messages
      in \<lparr>cp_model = model,
          cp_messages =
            map (\<lambda>msg. \<lparr>role = (if role msg = ''assistant'' then ''assistant'' else ''user''),
                         content = content msg\<rparr>) conversationMessages,
          cp_max_tokens = js_or_num (parseInt (max_tokens st)) 1024,
          cp_temperature = js_or_num (parseFloat (temperature st)) (7 / 10),
          cp_system = (case systemMessage of None \<Rightarrow> None | Some msg \<Rightarrow> Some (content msg))\<rparr>)"

definition anthropic_response :: "string \<Rightarrow> response_data \<Rightarrow> axios_error + response" where
  "anthropic_response model d =
     (case d of
        AnthropicReply blocks u \<Rightarrow>
          (case blocks of
             [] \<Rightarrow> Inl (type_error ''text'')
           | block # rest \<Rightarrow>
               Inr \<lparr>r_content = block, r_type = ''text'', r_model = model, r_usage = u,
                    r_provider = ''anthropic'', r_prompt = None, r_revised_prompt = None\<rparr>)
      | _ \<Rightarrow> Inl (type_error ''0''))"

definition callAnthropic :: "axios \<Rightarrow> string \<Rightarrow> string \<Rightarrow> message list \<Rightarrow> string option \<Rightarrow> settings \<Rightarrow> outcome" where
  "callAnthropic post endpoint model messages apiKey st =
     (if \<not> truthy apiKey then throw ''Anthropic API key not configured''
      else
        (let req = \<lparr>url = endpoint, body = Chat (anthropic_payload model messages st),
                    headers = [(''x-api-key'', the apiKey),
                               (''Content-Type'', ''application/json''),
                               (''anthropic-version'', ''2023-06-01'')],
                    timeout = 30000\<rparr>;
             rethrow = (\<lambda>e. Error (''Anthropic API Error: ''
                          @ (if truthy (e_response_message e) then the (e_response_message e)
                             else js_or (e_response_type e) (e_message e))))
         in case post req of
              Inl e \<Rightarrow> ([req], Inl (rethrow e))
            | Inr d \<Rightarrow>
                (case anthropic_response model d of
                   Inl e \<Rightarrow> ([req], Inl (rethrow e))
                 | Inr r \<Rightarrow> ([req], Inr r))))"

subsection \<open>sendMessage\<close>

text \<open>\<^verbatim>\<open>messages[messages.length - 1]\<close>: \<^verbatim>\<open>undefined\<close> for the empty array.\<close>

definition last_message :: "message list \<Rightarrow> message option" where
  "last_message messages = (if messages = [] then None else Some (last messages))"

text \<open>
  \<^verbatim>\<open>this.providers[model]\<close> is falsy only when it is \<^verbatim>\<open>undefined\<close>. An inherited member is
  truthy and has none of the properties \<^verbatim>\<open>provider\<close>, \<^verbatim>\<open>endpoint\<close>, \<^verbatim>\<open>type\<close>: the
  destructuring binds all three to \<^verbatim>\<open>undefined\<close>, no branch matches, and the last
  \<^verbatim>\<open>throw\<close> prints \<^verbatim>\<open>undefined\<close> for the provider.
\<close>

definition sendMessage :: "axios \<Rightarrow> string \<Rightarrow> message list \<Rightarrow> api_keys \<Rightarrow> settings \<Rightarrow> outcome" where
  "sendMessage post model messages apiKeys st =
     (case js_get providers model of
        Val providerConfig \<Rightarrow>
          if cfg_type providerConfig = ''image'' then
            (case last_message messages of
               None \<Rightarrow> throw ''Image generation requires a user prompt''
             | Some lastMessage \<Rightarrow>
                 if role lastMessage \<noteq> ''user''
                 then throw ''Image generation requires a user prompt''
                 else generateImage post model (content lastMessage) (openai apiKeys) st)
          else if cfg_provider providerConfig = ''openai'' then
            callOpenAI post (cfg_endpoint providerConfig) (cfg_model providerConfig)
              messages (openai apiKeys) st
          else if cfg_provider providerConfig = ''anthropic'' then
            callAnthropic post (cfg_endpoint providerConfig) (cfg_model providerConfig)
              messages (anthropic apiKeys) st
          else throw (''Unsupported provider: '' @ cfg_provider providerConfig)
      | Inherited k \<Rightarrow> throw ''Unsupported provider: undefined''
      | _ \<Rightarrow> throw (''Unsupported model: '' @ model))"

section \<open>Settings.js\<close>

subsection \<open>Bytes, hexadecimal text and the text codec\<close>

type_synonym byte = "8 word"

text \<open>\<^verbatim>\<open>buf.toString('hex')\<close>: two lower-case digits for each byte.\<close>

definition hex_digit :: "nat \<Rightarrow> char" where
  "hex_digit n = ''0123456789abcdef'' ! (n mod 16)"

definition hex_byte :: "byte \<Rightarrow> string" where
  "hex_byte b = [hex_digit (unat b div 16), hex_digit (unat b mod 16)]"

definition hex_encode :: "byte list \<Rightarrow> string" where
  "hex_encode bs = concat (map hex_byte bs)"

text \<open>
  \<^verbatim>\<open>Buffer.from(s, 'hex')\<close>: digits of either case are read in pairs, and decoding stops at
  the first pair that is not two hexadecimal digits; a last single character is dropped.
\<close>

definition hex_val :: "char \<Rightarrow> nat option" where
  "hex_val c =
     (let n = (of_char c :: nat) in
      if 48 \<le> n \<and> n \<le> 57 then Some (n - 48)
      else if 97 \<le> n \<and> n \<le> 102 then Some (n - 87)
      else if 65 \<le> n \<and> n \<le> 70 then Some (n - 55)
      else None)"

fun hex_decode :: "string \<Rightarrow> byte list" where
  "hex_decode (a # b # rest) =
     (case hex_val a of
        None \<Rightarrow> []
      | Some h \<Rightarrow>
          (case hex_val b of
             None \<Rightarrow> []
           | Some l \<Rightarrow> of_nat (16 * h + l) # hex_decode rest))"
| "hex_decode [a] = []"
| "hex_decode [] = []"

text \<open>
  The \<^verbatim>\<open>'utf8'\<close> codec on text whose characters are below \<^verbatim>\<open>0x80\<close>, where a character is
  the byte of its code. The credentials of the specification are printable ASCII; characters
  from \<^verbatim>\<open>0x80\<close> on take several bytes in Node and are not covered by this model.
\<close>

definition utf8_encode :: "string \<Rightarrow> byte list" where
  "utf8_encode s = map (\<lambda>c. of_nat (of_char c)) s"

definition utf8_decode :: "byte list \<Rightarrow> string" where
  "utf8_decode bs = map (\<lambda>b. char_of (unat b)) bs"

definition printable_ascii :: "string \<Rightarrow> bool" where
  "printable_ascii s = (\<forall>c \<in> set s. 32 \<le> (of_char c :: nat) \<and> (of_char c :: nat) \<le> 126)"

text \<open>\<^verbatim>\<open>s.split(c)\<close> for a one-character separator: never the empty array.\<close>

fun split_on :: "char \<Rightarrow> string \<Rightarrow> string list" where
  "split_on c [] = [[]]"
| "split_on c (x # xs) =
     (if x = c then [] # split_on c xs
      else (case split_on c xs of
              [] \<Rightarrow> [[x]]
            | part # parts \<Rightarrow> (x # part) # parts))"

subsection \<open>The crypto module and the process environment\<close>

text \<open>
  Node's \<^verbatim>\<open>crypto\<close> module is not part of the repository; the model takes it as a parameter:
  \<^item> \<open>sha256 s\<close> is \<^verbatim>\<open>crypto.createHash('sha256').update(s).digest()\<close>;
  \<^item> \<open>aes_encrypt key iv bytes\<close> is \<^verbatim>\<open>createCipheriv('aes-256-cbc', key, iv)\<close> followed by
    \<^verbatim>\<open>update\<close> and \<^verbatim>\<open>final\<close>;
  \<^item> \<open>aes_decrypt key iv bytes\<close> is \<^verbatim>\<open>createDecipheriv('aes-256-cbc', key, iv)\<close> followed by
    \<^verbatim>\<open>update\<close> and \<^verbatim>\<open>final\<close>;
  \<^item> \<open>decipher_error key iv\<close> is the message of what \<^verbatim>\<open>createDecipheriv\<close> alone throws for
    this key and IV, \<open>None\<close> when it returns a decipher.
  Each of \<open>aes_encrypt\<close> and \<open>aes_decrypt\<close> either returns bytes (\<open>Inr\<close>) or throws an error
  with a message (\<open>Inl\<close>): a wrong key or IV length, or padding that does not check on
  \<^verbatim>\<open>final\<close>.
\<close>

record crypto =
  sha256 :: "string \<Rightarrow> byte list"
  aes_encrypt :: "byte list \<Rightarrow> byte list \<Rightarrow> byte list \<Rightarrow> string + byte list"
  aes_decrypt :: "byte list \<Rightarrow> byte list \<Rightarrow> byte list \<Rightarrow> string + byte list"
  decipher_error :: "byte list \<Rightarrow> byte list \<Rightarrow> string option"

record env =
  ENCRYPTION_KEY :: "string option"
  OPENAI_API_KEY :: "string option"
  ANTHROPIC_API_KEY :: "string option"

subsection \<open>The database handle\<close>

text \<open>
  The table \<^verbatim>\<open>api_keys\<close> maps a provider to its \<^verbatim>\<open>key_hash\<close>; its schema is not among the
  sources, and \<^verbatim>\<open>INSERT OR REPLACE\<close> is taken to replace the row of the same provider, as the
  specification's upsert says. \<open>db_err\<close> is the error that the driver hands to every callback
  when the database is unusable.
\<close>

record db =
  api_keys_table :: "string \<rightharpoonup> string"
  db_err :: "string option"

subsection \<open>Encryption and decryption of a key\<close>

definition getEncryptionKey :: "crypto \<Rightarrow> env \<Rightarrow> byte list" where
  "getEncryptionKey c e =
     sha256 c (js_or (ENCRYPTION_KEY e) ''default-key-change-in-production-32-chars'')"

text \<open>\<open>iv\<close> is what \<^verbatim>\<open>crypto.randomBytes(16)\<close> returned for this call.\<close>

definition encryptApiKey :: "crypto \<Rightarrow> env \<Rightarrow> byte list \<Rightarrow> string \<Rightarrow> js_error + string" where
  "encryptApiKey c e iv apiKey =
     (let key = getEncryptionKey c e in
      case aes_encrypt c key iv (utf8_encode apiKey) of
        Inl msg \<Rightarrow> Inl (Error msg)
      | Inr encrypted \<Rightarrow> Inr (hex_encode iv @ '':'' @ hex_encode encrypted))"

text \<open>The decimal notation of a length, for the message below.\<close>

function show_nat :: "nat \<Rightarrow> string" where
  "show_nat n =
     (if n < 10 then [''0123456789'' ! n]
      else show_nat (n div 10) @ [''0123456789'' ! (n mod 10)])"
  by pat_completeness auto
termination
  by (relation "measure id") auto

text \<open>
  \<^verbatim>\<open>const [ivHex, encrypted] = encryptedData.split(':')\<close> takes the first two parts. The IV
  is decoded with \<^verbatim>\<open>Buffer.from\<close> and \<^verbatim>\<open>createDecipheriv\<close> is called on it before the second
  part is looked at. Then \<^verbatim>\<open>decipher.update(encrypted, 'hex', 'utf8')\<close> validates its
  arguments: with no separator \<^verbatim>\<open>encrypted\<close> is \<^verbatim>\<open>undefined\<close> and the call throws a
  \<^verbatim>\<open>TypeError\<close>; a hexadecimal text of odd length is refused as well; a text of even length
  is decoded (up to its first pair that is not hexadecimal) and decrypted.
\<close>

definition decryptApiKey :: "crypto \<Rightarrow> env \<Rightarrow> string \<Rightarrow> js_error + string" where
  "decryptApiKey c e encryptedData =
     (let key = getEncryptionKey c e;
          no_data = ''The '' @ [CHR 0x22] @ ''data'' @ [CHR 0x22]
                      @ '' argument must be of type string or an instance of Buffer, ''
                      @ ''TypedArray, or DataView. Received undefined''
      in case split_on CHR '':'' encryptedData of
        [] \<Rightarrow> Inl (Error no_data)
      | ivHex # parts \<Rightarrow>
          (let iv = hex_decode ivHex in
           case parts of
             [] \<Rightarrow>
               (case decipher_error c key iv of
                  Some msg \<Rightarrow> Inl (Error msg)
                | None \<Rightarrow> Inl (Error no_data))
           | encrypted # rest \<Rightarrow>
               if odd (length encrypted) then
                 (case decipher_error c key iv of
                    Some msg \<Rightarrow> Inl (Error msg)
                  | None \<Rightarrow>
                      Inl (Error (''The argument '' @ [CHR 0x27] @ ''encoding'' @ [CHR 0x27]
                                    @ '' is invalid for data of length ''
                                    @ show_nat (length encrypted) @ ''. Received ''
                                    @ [CHR 0x27] @ ''hex'' @ [CHR 0x27])))
               else
                 (case aes_decrypt c key iv (hex_decode encrypted) of
                    Inl msg \<Rightarrow> Inl (Error msg)
                  | Inr decrypted \<Rightarrow> Inr (utf8_decode decrypted))))"

subsection \<open>The API-key operations\<close>

text \<open>\<^verbatim>\<open>setApiKey\<close> returns the database after the call and what the promise settles to.\<close>

definition setApiKey :: "crypto \<Rightarrow> env \<Rightarrow> byte list \<Rightarrow> db \<Rightarrow> string \<Rightarrow> string \<Rightarrow> db \<times> (js_error + string \<times> bool)" where
  "setApiKey c e iv d provider apiKey =
     (case encryptApiKey c e iv apiKey of
        Inl (Error msg) \<Rightarrow> (d, Inl (Error (''Failed to encrypt API key: '' @ msg)))
      | Inr encryptedKey \<Rightarrow>
          (case db_err d of
             Some err \<Rightarrow> (d, Inl (Error err))
           | None \<Rightarrow>
               (d\<lparr>api_keys_table := (api_keys_table d)(provider \<mapsto> encryptedKey)\<rparr>,
                Inr (provider, True))))"

definition getApiKey :: "db \<Rightarrow> string \<Rightarrow> js_error + bool" where
  "getApiKey d provider =
     (case db_err d of
        Some err \<Rightarrow> Inl (Error err)
      | None \<Rightarrow> Inr (api_keys_table d provider \<noteq> None))"

definition deleteApiKey :: "db \<Rightarrow> string \<Rightarrow> db \<times> (js_error + nat)" where
  "deleteApiKey d provider =
     (case db_err d of
        Some err \<Rightarrow> (d, Inl (Error err))
      | None \<Rightarrow>
          (d\<lparr>api_keys_table := (api_keys_table d)(provider := None)\<rparr>,
           Inr (if api_keys_table d provider = None then 0 else 1)))"

text \<open>
  \<^verbatim>\<open>envKeys[provider] || null\<close>: the own entries are the two environment variables (unset
  or empty ones are falsy); an inherited member is truthy and is what the promise resolves to.
\<close>

definition getEnvApiKey :: "env \<Rightarrow> string \<Rightarrow> string jsval" where
  "getEnvApiKey e provider =
     (let envKeys = [(''openai'', OPENAI_API_KEY e), (''anthropic'', ANTHROPIC_API_KEY e)] in
      case js_get envKeys provider of
        Val v \<Rightarrow> if truthy v then Val (the v) else Null
      | Inherited k \<Rightarrow> Inherited k
      | _ \<Rightarrow> Null)"

definition getActualApiKey :: "crypto \<Rightarrow> env \<Rightarrow> db \<Rightarrow> string \<Rightarrow> js_error + string jsval" where
  "getActualApiKey c e d provider =
     (case db_err d of
        Some err \<Rightarrow> Inl (Error err)
      | None \<Rightarrow>
          (case api_keys_table d provider of
             Some key_hash \<Rightarrow>
               if key_hash \<noteq> [] then
                 (case decryptApiKey c e key_hash of
                    Inr decryptedKey \<Rightarrow> Inr (Val decryptedKey)
                  | Inl decodeError \<Rightarrow> Inr (getEnvApiKey e provider))
               else Inr (getEnvApiKey e provider)
           | None \<Rightarrow> Inr (getEnvApiKey e provider)))"

section \<open>Concrete collaborators for the instances\<close>

text \<open>
  A stand-in with the interface of the crypto module, with which the theorems about the
  credential store are instantiated. The digest is the text's own bytes; a ciphertext
  starts with a one-byte tag of the key, followed by the plaintext bytes each combined with
  the tag and the first IV byte; decryption throws when the IV is not 16 bytes or the tag is
  not the key's.
\<close>

definition key_tag :: "byte list \<Rightarrow> byte" where
  "key_tag key = fold (+) key 0"

definition key_mask :: "byte list \<Rightarrow> byte list \<Rightarrow> byte" where
  "key_mask key iv = key_tag key + (case iv of [] \<Rightarrow> 0 | b # bs \<Rightarrow> b)"

definition standin_encrypt :: "byte list \<Rightarrow> byte list \<Rightarrow> byte list \<Rightarrow> string + byte list" where
  "standin_encrypt key iv p =
     (if length iv \<noteq> 16 then Inl ''Invalid initialization vector''
      else Inr (key_tag key # map (\<lambda>b. b + key_mask key iv) p))"

definition standin_decrypt :: "byte list \<Rightarrow> byte list \<Rightarrow> byte list \<Rightarrow> string + byte list" where
  "standin_decrypt key iv ct =
     (if length iv \<noteq> 16 then Inl ''Invalid initialization vector''
      else case ct of
        [] \<Rightarrow> Inl ''bad decrypt''
      | t # bs \<Rightarrow>
          if t = key_tag key then Inr (map (\<lambda>b. b - key_mask key iv) bs)
          else Inl ''bad decrypt'')"

definition standin_crypto :: crypto where
  "standin_crypto =
     \<lparr>sha256 = utf8_encode, aes_encrypt = standin_encrypt, aes_decrypt = standin_decrypt,
      decipher_error =
        (\<lambda>key iv. if length iv \<noteq> 16 then Some ''Invalid initialization vector'' else None)\<rparr>"

definition iv0 :: "byte list" where
  "iv0 = [0x3c, 0x01, 0xa7, 0x5e, 0x10, 0xff, 0x42, 0x99, 0x08, 0xd4, 0x6b, 0x27, 0xe0, 0x73, 0x1f, 0xb5]"

definition env0 :: env where
  "env0 = \<lparr>ENCRYPTION_KEY = Some ''first-secret'', OPENAI_API_KEY = Some ''sk-env-openai'',
           ANTHROPIC_API_KEY = None\<rparr>"

definition db0 :: db where
  "db0 = \<lparr>api_keys_table = Map.empty, db_err = None\<rparr>"

text \<open>Stub endpoints: one that answers every post with a fixed reply.\<close>

definition answer :: "response_data \<Rightarrow> axios" where
  "answer d = (\<lambda>req. Inr d)"

definition st0 :: settings where
  "st0 = \<lparr>max_tokens = None, temperature = None, image_size = None, image_quality = None,
          image_style = None\<rparr>"

definition keys0 :: api_keys where
  "keys0 = \<lparr>openai = Some ''sk-test'', anthropic = Some ''sk-ant-test''\<rparr>"

text \<open>Image entries and the table entry of \<^verbatim>\<open>gpt-image-1\<close> for the instances.\<close>

definition gpt_image_cfg :: provider_config where
  "gpt_image_cfg = \<lparr>cfg_provider = ''openai'', cfg_endpoint = ''https://api.openai.com/v1/images/generations'',
         cfg_model = ''gpt-image-1'', cfg_type = ''image''\<rparr>"

definition url_only :: image_datum where
  "url_only = \<lparr>d_url = Some ''https://img.example/1.png'', d_b64_json = None, d_revised_prompt = None\<rparr>"

definition b64_only :: image_datum where
  "b64_only = \<lparr>d_url = None, d_b64_json = Some ''QUJD'', d_revised_prompt = None\<rparr>"

definition no_image :: image_datum where
  "no_image = \<lparr>d_url = None, d_b64_json = None, d_revised_prompt = Some ''a cat''\<rparr>"

text \<open>
  The Anthropic translation as the specification words it, for comparison with
  \<open>anthropic_payload\<close>: only a system message at the head of the list is taken out and sent
  as the system field; every message that remains is sent, with each role other than
  \<^verbatim>\<open>assistant\<close> turned into \<^verbatim>\<open>user\<close>.
\<close>

definition spec_system :: "message list \<Rightarrow> string option" where
  "spec_system messages =
     (case messages of
        [] \<Rightarrow> None
      | m # rest \<Rightarrow> if role m = ''system'' then Some (content m) else None)"

definition spec_conversation :: "message list \<Rightarrow> message list" where
  "spec_conversation messages =
     map (\<lambda>msg. \<lparr>role = (if role msg = ''assistant'' then ''assistant'' else ''user''),
                  content = content msg\<rparr>)
       (case messages of
          [] \<Rightarrow> []
        | m # rest \<Rightarrow> if role m = ''system'' then rest else m # rest)"

text \<open>Message lists and a request with its response for the instances.\<close>

definition late_system :: "message list" where
  "late_system = [\<lparr>role = ''user'', content = ''hi''\<rparr>, \<lparr>role = ''system'', content = ''be brief''\<rparr>]"

definition lead_system :: "message list" where
  "lead_system = [\<lparr>role = ''system'', content = ''be brief''\<rparr>, \<lparr>role = ''user'', content = ''hi''\<rparr>,
                  \<lparr>role = ''assistant'', content = ''hello''\<rparr>, \<lparr>role = ''tool'', content = ''42''\<rparr>]"

definition sonnet_request :: request where
  "sonnet_request =
     \<lparr>url = ''https://api.anthropic.com/v1/messages'',
      body = Chat (anthropic_payload ''claude-3-sonnet-20240229''
                     [\<lparr>role = ''user'', content = ''hi''\<rparr>] st0),
      headers = [(''x-api-key'', ''sk-ant-test''), (''Content-Type'', ''application/json''),
                 (''anthropic-version'', ''2023-06-01'')],
      timeout = 30000\<rparr>"

definition sonnet_response :: response where
  "sonnet_response =
     \<lparr>r_content = ''hello'', r_type = ''text'', r_model = ''claude-3-sonnet-20240229'',
      r_usage = None, r_provider = ''anthropic'', r_prompt = None, r_revised_prompt = None\<rparr>"

text \<open>
  A credential, the text stored for it under the first secret, the environment after the
  secret has changed, and a database holding that text for two providers.
\<close>

definition key0 :: string where
  "key0 = ''sk-test-1234567890''"

definition ct0 :: "byte list" where
  "ct0 = key_tag (utf8_encode ''first-secret'')
           # map (\<lambda>b. b + key_mask (utf8_encode ''first-secret'') iv0) (utf8_encode key0)"

definition stored0 :: string where
  "stored0 = hex_encode iv0 @ '':'' @ hex_encode ct0"

definition env1 :: env where
  "env1 = env0\<lparr>ENCRYPTION_KEY := Some ''second-secret''\<rparr>"

definition db1 :: db where
  "db1 = fst (setApiKey standin_crypto env0 iv0
                (fst (setApiKey standin_crypto env0 iv0 db0 ''openai'' key0)) ''anthropic'' key0)"


section \<open>Properties of the dispatch in llmService.js\<close>

subsection \<open>Lookups in the provider table\<close>

lemma js_get_providers_toString: "js_get providers ''toString'' = Inherited ''toString''"
  by (simp add: js_get_def providers_def Object_prototype_keys_def)

lemma not_validateModel_toString: "\<not> validateModel ''toString''"
  by (simp add: validateModel_def providers_def)

lemma js_get_providers_dalle3:
  "js_get providers ''dall-e-3'' =
     Val \<lparr>cfg_provider = ''openai'', cfg_endpoint = ''https://api.openai.com/v1/images/generations'',
         cfg_model = ''dall-e-3'', cfg_type = ''image''\<rparr>"
  by (simp add: js_get_def providers_def)

subsection \<open>Unknown model ids\<close>

text \<open>
  An id that is neither a key of the table nor a member of \<^verbatim>\<open>Object.prototype\<close> is rejected
  with the message for unsupported models, and nothing is posted.
\<close>

lemma sendMessage_unknown_model:
  assumes "model \<notin> set (map fst providers)" and "model \<notin> set Object_prototype_keys"
  shows "sendMessage post model messages apiKeys st
           = ([], Inl (Error (''Unsupported model: '' @ model)))"
proof -
  have "map_of providers model = None"
    using assms(1) by (simp add: map_of_eq_None_iff)
  then have "js_get providers model = Undefined"
    using assms(2) by (simp add: js_get_def)
  then show ?thesis by (simp add: sendMessage_def throw_def)
qed

text \<open>
  An id that is a member of \<^verbatim>\<open>Object.prototype\<close> is no key of the table, but the lookup
  returns the inherited member and the call ends in the error for an unsupported provider.
\<close>

lemma inherited_names_not_in_table:
  "model \<in> set Object_prototype_keys \<Longrightarrow> model \<notin> set (map fst providers)"
  by (auto simp: Object_prototype_keys_def providers_def)

lemma sendMessage_inherited_name:
  assumes "model \<in> set Object_prototype_keys"
  shows "sendMessage post model messages apiKeys st
           = ([], Inl (Error ''Unsupported provider: undefined''))"
    and "\<not> validateModel model"
proof -
  have n: "model \<notin> set (map fst providers)"
    using assms by (rule inherited_names_not_in_table)
  then have "map_of providers model = None"
    by (simp add: map_of_eq_None_iff)
  with assms have "js_get providers model = Inherited model"
    by (simp add: js_get_def)
  then show "sendMessage post model messages apiKeys st
           = ([], Inl (Error ''Unsupported provider: undefined''))"
    by (simp add: sendMessage_def throw_def)
  show "\<not> validateModel model"
    using n by (simp add: validateModel_def)
qed

text \<open>
  Claim C7. Every model id that is not in the provider table should make \<^verbatim>\<open>sendMessage\<close>
  fail with the unsupported-model error. The id \<^verbatim>\<open>toString\<close> is not in the table
  (\<^verbatim>\<open>validateModel\<close> rejects it), yet \<^verbatim>\<open>this.providers['toString']\<close> is the inherited
  function, the guard \<^verbatim>\<open>!providerConfig\<close> lets it pass, and the call ends in the error for an
  unsupported provider, with \<^verbatim>\<open>undefined\<close> as the provider's name. Nothing is posted.
\<close>

theorem C7_inherited_name_reported_as_unsupported_provider:
  "sendMessage post ''toString'' messages apiKeys st
     = ([], Inl (Error ''Unsupported provider: undefined''))
   \<and> \<not> validateModel ''toString''"
  by (simp add: sendMessage_def js_get_providers_toString throw_def not_validateModel_toString)

subsection \<open>Image dispatch\<close>

lemma sendMessage_image:
  assumes "js_get providers model = Val cfg" and "cfg_type cfg = ''image''"
  shows "sendMessage post model messages apiKeys st =
           (case last_message messages of
              None \<Rightarrow> throw ''Image generation requires a user prompt''
            | Some lastMessage \<Rightarrow>
                if role lastMessage \<noteq> ''user''
                then throw ''Image generation requires a user prompt''
                else generateImage post model (content lastMessage) (openai apiKeys) st)"
  using assms by (simp add: sendMessage_def)

lemma generateImage_calls:
  "req \<in> set (fst (generateImage post model prompt apiKey st)) \<Longrightarrow>
     \<exists>p. body req = Image p \<and> ip_prompt p = prompt"
  by (auto simp: generateImage_def throw_def Let_def image_request_def image_payload_of_def
      split: if_splits jsval.splits sum.splits)

text \<open>
  Claim C6. For a model whose table entry has type \<^verbatim>\<open>image\<close>: when the message list is empty
  or its last message is not a user message, \<^verbatim>\<open>sendMessage\<close> throws the error asking for a
  user prompt and posts nothing; when the last message is a user message, the call is
  \<^verbatim>\<open>generateImage\<close> on the content of that message alone, and every request it posts carries
  that content as its prompt.
\<close>

theorem C6_image_dispatch_requires_trailing_user_message:
  assumes "js_get providers model = Val cfg" and "cfg_type cfg = ''image''"
  shows "(messages = [] \<or> role (last messages) \<noteq> ''user'' \<longrightarrow>
            sendMessage post model messages apiKeys st
              = ([], Inl (Error ''Image generation requires a user prompt'')))
       \<and> (messages \<noteq> [] \<and> role (last messages) = ''user'' \<longrightarrow>
            sendMessage post model messages apiKeys st
              = generateImage post model (content (last messages)) (openai apiKeys) st
          \<and> (\<forall>req \<in> set (fst (sendMessage post model messages apiKeys st)).
                \<exists>p. body req = Image p \<and> ip_prompt p = content (last messages)))"
proof (intro conjI impI)
  assume "messages = [] \<or> role (last messages) \<noteq> ''user''"
  then show "sendMessage post model messages apiKeys st
              = ([], Inl (Error ''Image generation requires a user prompt''))"
    by (auto simp: sendMessage_image [OF assms] last_message_def throw_def)
next
  assume u: "messages \<noteq> [] \<and> role (last messages) = ''user''"
  then show eq: "sendMessage post model messages apiKeys st
              = generateImage post model (content (last messages)) (openai apiKeys) st"
    by (simp add: sendMessage_image [OF assms] last_message_def)
  show "\<forall>req \<in> set (fst (sendMessage post model messages apiKeys st)).
                \<exists>p. body req = Image p \<and> ip_prompt p = content (last messages)"
    unfolding eq by (blast dest: generateImage_calls)
qed

theorem C6_witness:
  "sendMessage (answer (ImageReply None)) ''dall-e-3''
       [\<lparr>role = ''user'', content = ''a cat''\<rparr>, \<lparr>role = ''assistant'', content = ''ok''\<rparr>]
       keys0 st0
     = ([], Inl (Error ''Image generation requires a user prompt''))
   \<and> sendMessage (answer (ImageReply None)) ''dall-e-3'' [] keys0 st0
     = ([], Inl (Error ''Image generation requires a user prompt''))
   \<and> sendMessage (answer (ImageReply None)) ''dall-e-3''
       [\<lparr>role = ''assistant'', content = ''ok''\<rparr>, \<lparr>role = ''user'', content = ''a cat''\<rparr>]
       keys0 st0
     = generateImage (answer (ImageReply None)) ''dall-e-3'' ''a cat'' (Some ''sk-test'') st0"
  using
    C6_image_dispatch_requires_trailing_user_message [OF js_get_providers_dalle3,
      of "[\<lparr>role = ''user'', content = ''a cat''\<rparr>, \<lparr>role = ''assistant'', content = ''ok''\<rparr>]"
         "answer (ImageReply None)" keys0 st0]
    C6_image_dispatch_requires_trailing_user_message [OF js_get_providers_dalle3,
      of "[]" "answer (ImageReply None)" keys0 st0]
    C6_image_dispatch_requires_trailing_user_message [OF js_get_providers_dalle3,
      of "[\<lparr>role = ''assistant'', content = ''ok''\<rparr>, \<lparr>role = ''user'', content = ''a cat''\<rparr>]"
         "answer (ImageReply None)" keys0 st0]
  by (simp add: keys0_def)

subsection \<open>Normalizing an image reply\<close>

lemma no_url_message: "str_includes ''No image URL found in API response'' ''No image URL found''"
  by simp

lemma image_catch_no_url:
  "image_catch model \<lparr>e_message = ''No image URL found in API response'',
                       e_response_message = None, e_response_type = None\<rparr>
     = Error (''Image generation failed for '' @ model
                @ '': Response structure issue - check logs for details'')"
  unfolding image_catch_def using no_url_message by simp

lemma generateImage_answered:
  assumes "truthy apiKey" and "js_get providers model = Val cfg" and "cfg_type cfg = ''image''"
    and "post (image_request model cfg prompt (the apiKey) st) = Inr d"
  shows "generateImage post model prompt apiKey st =
           ([image_request model cfg prompt (the apiKey) st],
            case image_response model prompt d of
              Inl e \<Rightarrow> Inl (image_catch model e)
            | Inr r \<Rightarrow> Inr r)"
  using assms by (simp add: generateImage_def Let_def split: sum.splits)

lemma image_response_url:
  assumes "first_image d = Some x" and "d_url x = Some u" and "u \<noteq> []"
  shows "\<exists>r. image_response model prompt d = Inr r \<and> r_content r = u"
  using assms by (simp add: image_response_def image_url_def truthy_def Let_def)

lemma image_response_b64:
  assumes "first_image d = Some x" and "\<not> truthy (d_url x)" and "d_b64_json x = Some b" and "b \<noteq> []"
  shows "\<exists>r. image_response model prompt d = Inr r \<and> r_content r = ''data:image/png;base64,'' @ b"
  using assms by (simp add: image_response_def image_url_def truthy_def Let_def)

lemma image_response_neither:
  assumes "first_image d = None \<or> (\<exists>x. first_image d = Some x \<and> \<not> truthy (d_url x) \<and> \<not> truthy (d_b64_json x))"
  shows "image_response model prompt d =
           Inl \<lparr>e_message = ''No image URL found in API response'',
                e_response_message = None, e_response_type = None\<rparr>"
  using assms by (auto simp: image_response_def image_url_def truthy_def Let_def)

text \<open>
  Claim C8. For an image model and a configured key, when the provider answers the request:
  a non-empty \<^verbatim>\<open>url\<close> in the first image entry becomes the content; with no such URL, a
  non-empty \<^verbatim>\<open>b64_json\<close> gives the content \<^verbatim>\<open>data:image/png;base64,\<close> followed by the data;
  with neither (or with no image entry at all) \<^verbatim>\<open>generateImage\<close> throws and returns no
  response.
\<close>

theorem C8_image_response_normalization:
  assumes "truthy apiKey" and "js_get providers model = Val cfg" and "cfg_type cfg = ''image''"
    and "post (image_request model cfg prompt (the apiKey) st) = Inr d"
  shows "(\<forall>x u. first_image d = Some x \<and> d_url x = Some u \<and> u \<noteq> [] \<longrightarrow>
            (\<exists>r. snd (generateImage post model prompt apiKey st) = Inr r \<and> r_content r = u))
       \<and> (\<forall>x b. first_image d = Some x \<and> \<not> truthy (d_url x) \<and> d_b64_json x = Some b \<and> b \<noteq> [] \<longrightarrow>
            (\<exists>r. snd (generateImage post model prompt apiKey st) = Inr r
                  \<and> r_content r = ''data:image/png;base64,'' @ b))
       \<and> (first_image d = None
            \<or> (\<exists>x. first_image d = Some x \<and> \<not> truthy (d_url x) \<and> \<not> truthy (d_b64_json x)) \<longrightarrow>
            snd (generateImage post model prompt apiKey st)
              = Inl (Error (''Image generation failed for '' @ model
                              @ '': Response structure issue - check logs for details'')))"
proof (intro conjI allI impI)
  fix x u
  assume "first_image d = Some x \<and> d_url x = Some u \<and> u \<noteq> []"
  then obtain r where "image_response model prompt d = Inr r" and "r_content r = u"
    using image_response_url by blast
  then show "\<exists>r. snd (generateImage post model prompt apiKey st) = Inr r \<and> r_content r = u"
    using assms by (simp add: generateImage_answered)
next
  fix x b
  assume "first_image d = Some x \<and> \<not> truthy (d_url x) \<and> d_b64_json x = Some b \<and> b \<noteq> []"
  then obtain r where "image_response model prompt d = Inr r"
    and "r_content r = ''data:image/png;base64,'' @ b"
    using image_response_b64 by blast
  then show "\<exists>r. snd (generateImage post model prompt apiKey st) = Inr r
                  \<and> r_content r = ''data:image/png;base64,'' @ b"
    using assms by (simp add: generateImage_answered)
next
  assume "first_image d = None
            \<or> (\<exists>x. first_image d = Some x \<and> \<not> truthy (d_url x) \<and> \<not> truthy (d_b64_json x))"
  then have "image_response model prompt d =
           Inl \<lparr>e_message = ''No image URL found in API response'',
                e_response_message = None, e_response_type = None\<rparr>"
    by (rule image_response_neither)
  then show "snd (generateImage post model prompt apiKey st)
              = Inl (Error (''Image generation failed for '' @ model
                              @ '': Response structure issue - check logs for details''))"
    using assms by (simp add: generateImage_answered image_catch_no_url)
qed

lemma js_get_providers_gpt_image:
  "js_get providers ''gpt-image-1'' =
     Val \<lparr>cfg_provider = ''openai'', cfg_endpoint = ''https://api.openai.com/v1/images/generations'',
         cfg_model = ''gpt-image-1'', cfg_type = ''image''\<rparr>"
  by (simp add: js_get_def providers_def)

theorem C8_witness:
  "map_sum id r_content (snd (generateImage (answer (ImageReply (Some [url_only]))) ''gpt-image-1'' ''a cat'' (Some ''sk-test'') st0))
      = Inr ''https://img.example/1.png''
   \<and> map_sum id r_content (snd (generateImage (answer (ImageReply (Some [b64_only]))) ''gpt-image-1'' ''a cat'' (Some ''sk-test'') st0))
      = Inr ''data:image/png;base64,QUJD''
   \<and> snd (generateImage (answer (ImageReply (Some [no_image]))) ''gpt-image-1'' ''a cat'' (Some ''sk-test'') st0)
      = Inl (Error ''Image generation failed for gpt-image-1: Response structure issue - check logs for details'')
   \<and> snd (generateImage (answer (ImageReply None)) ''gpt-image-1'' ''a cat'' (Some ''sk-test'') st0)
      = Inl (Error ''Image generation failed for gpt-image-1: Response structure issue - check logs for details'')"
proof -
  have k: "truthy (Some ''sk-test'')" by (simp add: truthy_def)
  have g: "js_get providers ''gpt-image-1'' = Val gpt_image_cfg"
    by (simp add: js_get_providers_gpt_image gpt_image_cfg_def)
  have t: "cfg_type gpt_image_cfg = ''image''" by (simp add: gpt_image_cfg_def)
  have a: "\<And>d. answer d (image_request ''gpt-image-1'' gpt_image_cfg ''a cat'' (the (Some ''sk-test'')) st0) = Inr d"
    by (simp add: answer_def)
  have 1: "map_sum id r_content (snd (generateImage (answer (ImageReply (Some [url_only]))) ''gpt-image-1'' ''a cat'' (Some ''sk-test'') st0))
      = Inr ''https://img.example/1.png''"
    using C8_image_response_normalization [where post = "answer (ImageReply (Some [url_only]))", OF k g t a]
    by (auto simp: first_image_def url_only_def)
  have 2: "map_sum id r_content (snd (generateImage (answer (ImageReply (Some [b64_only]))) ''gpt-image-1'' ''a cat'' (Some ''sk-test'') st0))
      = Inr ''data:image/png;base64,QUJD''"
    using C8_image_response_normalization [where post = "answer (ImageReply (Some [b64_only]))", OF k g t a]
    by (auto simp: first_image_def b64_only_def truthy_def)
  have 3: "snd (generateImage (answer (ImageReply (Some [no_image]))) ''gpt-image-1'' ''a cat'' (Some ''sk-test'') st0)
      = Inl (Error ''Image generation failed for gpt-image-1: Response structure issue - check logs for details'')"
    using C8_image_response_normalization [where post = "answer (ImageReply (Some [no_image]))", OF k g t a]
    by (simp add: first_image_def no_image_def truthy_def)
  have 4: "snd (generateImage (answer (ImageReply None)) ''gpt-image-1'' ''a cat'' (Some ''sk-test'') st0)
      = Inl (Error ''Image generation failed for gpt-image-1: Response structure issue - check logs for details'')"
    using C8_image_response_normalization [where post = "answer (ImageReply None)", OF k g t a]
    by (simp add: first_image_def)
  from 1 2 3 4 show ?thesis by blast
qed

subsection \<open>Quality of gpt-image-1\<close>

lemma gpt_image_quality_mapped:
  "gpt_image_quality (st\<lparr>image_quality := Some ''standard''\<rparr>) = Val ''medium''"
  "gpt_image_quality (st\<lparr>image_quality := Some ''hd''\<rparr>) = Val ''high''"
  "gpt_image_quality (st\<lparr>image_quality := Some ''low''\<rparr>) = Val ''low''"
  "gpt_image_quality (st\<lparr>image_quality := Some ''medium''\<rparr>) = Val ''medium''"
  "gpt_image_quality (st\<lparr>image_quality := Some ''high''\<rparr>) = Val ''high''"
  by (simp_all add: gpt_image_quality_def js_or_def truthy_def js_get_def qualityMap_def)

lemma gpt_image_quality_default:
  assumes "image_quality st = None \<or> image_quality st = Some []
           \<or> (\<exists>q. image_quality st = Some q \<and> q \<notin> set (map fst qualityMap)
                  \<and> q \<notin> set Object_prototype_keys)"
  shows "gpt_image_quality st = Val ''high''"
proof (cases "truthy (image_quality st)")
  case False
  then show ?thesis
    by (simp add: gpt_image_quality_def js_or_def js_get_def qualityMap_def)
next
  case True
  then obtain q where q: "image_quality st = Some q" "q \<noteq> []"
    by (auto simp: truthy_def split: option.splits)
  with assms have "q \<notin> set (map fst qualityMap)" and np: "q \<notin> set Object_prototype_keys"
    by auto
  then have "map_of qualityMap q = None" by (simp add: map_of_eq_None_iff)
  with q np show ?thesis
    by (simp add: gpt_image_quality_def js_or_def truthy_def js_get_def)
qed

text \<open>
  Claim C9. For \<^verbatim>\<open>gpt-image-1\<close> the posted quality should be the mapped value for the five
  known qualities and \<^verbatim>\<open>high\<close> for a missing or any other quality
  (\<open>gpt_image_quality_mapped\<close> and \<open>gpt_image_quality_default\<close> show it for the five
  values, for a missing or empty one and for every other string that \<^verbatim>\<open>Object.prototype\<close>
  does not define). For the quality \<^verbatim>\<open>constructor\<close>, which is none of the five values, the
  lookup \<^verbatim>\<open>qualityMap['constructor']\<close> is the inherited function, which is truthy, and the
  default is not applied: the posted quality is that function, not \<^verbatim>\<open>high\<close>.
\<close>

theorem C9_inherited_name_is_not_defaulted:
  "ip_quality (image_payload_of ''gpt-image-1'' cfg prompt (st\<lparr>image_quality := Some ''constructor''\<rparr>))
     = Inherited ''constructor''
   \<and> map (\<lambda>req. case body req of Image p \<Rightarrow> ip_quality p | Chat p \<Rightarrow> Undefined)
       (fst (generateImage post ''gpt-image-1'' prompt (Some ''sk-test'')
               (st\<lparr>image_quality := Some ''constructor''\<rparr>)))
     = [Inherited ''constructor'']"
proof -
  have q: "gpt_image_quality (st\<lparr>image_quality := Some ''constructor''\<rparr>) = Inherited ''constructor''"
    by (simp add: gpt_image_quality_def js_or_def truthy_def js_get_def qualityMap_def
        Object_prototype_keys_def)
  have p: "\<And>cfg. ip_quality (image_payload_of ''gpt-image-1'' cfg prompt (st\<lparr>image_quality := Some ''constructor''\<rparr>))
     = Inherited ''constructor''"
    by (simp add: image_payload_of_def q)
  show ?thesis
    by (simp add: p generateImage_def js_get_providers_gpt_image truthy_def Let_def
        image_request_def split: sum.splits)
qed

subsection \<open>Defaults of the text payloads\<close>

lemma parseInt_num_whole:
  assumes "\<bar>n\<bar> < 10 ^ 21"
  shows "parseInt_num (of_int n) = n"
proof (cases "n = 0")
  case True
  then show ?thesis by (simp add: parseInt_num_def)
next
  case False
  have abs: "\<bar>rat_of_int n\<bar> = of_int \<bar>n\<bar>" by simp
  have big: "\<not> (10 ^ 21 \<le> rat_of_int \<bar>n\<bar>)"
  proof -
    have "rat_of_int \<bar>n\<bar> < of_int (10 ^ 21)"
      using assms by (simp only: of_int_less_iff)
    then show ?thesis by simp
  qed
  have "1 \<le> \<bar>n\<bar>" using False by simp
  then have "(1 :: rat) \<le> of_int \<bar>n\<bar>"
    by (metis of_int_le_iff of_int_1)
  then have small: "\<not> (rat_of_int \<bar>n\<bar> < 1 / 10 ^ 6)"
    by simp
  have nz: "rat_of_int \<bar>n\<bar> \<noteq> 0" using False by simp
  show ?thesis
    unfolding parseInt_num_def Let_def abs
    using big small nz by (simp only: if_False floor_of_int of_int_less_0_iff) simp
qed

lemma parseInt_num_fraction: "parseInt_num (3 / 2) = 1"
  by code_simp

lemma parseInt_num_exponent: "parseInt_num (10 ^ 21) = 1"
  by code_simp

lemma text_payload_numbers:
  "cp_temperature (openai_payload model messages st)
     = (case temperature st of None \<Rightarrow> 7 / 10 | Some t \<Rightarrow> if t = 0 then 7 / 10 else t)"
  "cp_temperature (anthropic_payload model messages st)
     = (case temperature st of None \<Rightarrow> 7 / 10 | Some t \<Rightarrow> if t = 0 then 7 / 10 else t)"
  "cp_max_tokens (openai_payload model messages st)
     = (case max_tokens st of None \<Rightarrow> 2000
        | Some r \<Rightarrow> if parseInt_num r = 0 then 2000 else parseInt_num r)"
  "cp_max_tokens (anthropic_payload model messages st)
     = (case max_tokens st of None \<Rightarrow> 1024
        | Some r \<Rightarrow> if parseInt_num r = 0 then 1024 else parseInt_num r)"
  by (simp_all add: openai_payload_def anthropic_payload_def js_or_num_def parseFloat_def
      parseInt_def Let_def split: option.splits)

lemma text_payload_supplied:
  assumes "temperature st = Some t" and "0 < t" and "t \<le> 2"
    and "max_tokens st = Some (of_int n)" and "1 \<le> n" and "n \<le> 8000"
  shows "cp_temperature (openai_payload model messages st) = t"
    and "cp_temperature (anthropic_payload model messages st) = t"
    and "cp_max_tokens (openai_payload model messages st) = n"
    and "cp_max_tokens (anthropic_payload model messages st) = n"
proof -
  have "\<bar>n\<bar> < 10 ^ 21" using assms(5,6) by simp
  then have p: "parseInt_num (of_int n) = n" by (rule parseInt_num_whole)
  show "cp_temperature (openai_payload model messages st) = t"
    and "cp_temperature (anthropic_payload model messages st) = t"
    using assms(1,2) by (simp_all add: text_payload_numbers)
  show "cp_max_tokens (openai_payload model messages st) = n"
    and "cp_max_tokens (anthropic_payload model messages st) = n"
    using assms(4,5) by (simp_all add: text_payload_numbers p)
qed

lemma text_payload_fraction:
  "cp_max_tokens (openai_payload model messages (st\<lparr>max_tokens := Some (3 / 2)\<rparr>)) = 1"
  "cp_max_tokens (anthropic_payload model messages (st\<lparr>max_tokens := Some (3 / 2)\<rparr>)) = 1"
  by (simp_all add: text_payload_numbers parseInt_num_fraction)

text \<open>
  Claim C5. The posted temperature should be the caller's when it lies in \<open>[0, 2]\<close> and
  \<open>0.7\<close> when none is given; the posted \<^verbatim>\<open>max_tokens\<close> the caller's when it lies in
  \<open>[1, 8000]\<close> and otherwise 2000 (OpenAI) or 1024 (Anthropic). \<open>text_payload_numbers\<close>
  gives what is posted in every case and \<open>text_payload_supplied\<close> shows the claim for a
  temperature other than 0 and a whole \<^verbatim>\<open>max_tokens\<close> (a fractional one is cut to its
  integer part, \<open>text_payload_fraction\<close>). At the temperature 0 the claim fails: 0 lies
  in the range, but \<^verbatim>\<open>parseFloat(0) || 0.7\<close> is \<open>0.7\<close>, in both variants.
\<close>

theorem C5_zero_temperature_is_replaced:
  "cp_temperature (openai_payload model messages (st\<lparr>temperature := Some 0\<rparr>)) = 7 / 10
   \<and> cp_temperature (anthropic_payload model messages (st\<lparr>temperature := Some 0\<rparr>)) = 7 / 10
   \<and> map (\<lambda>req. case body req of Chat p \<Rightarrow> cp_temperature p | Image p \<Rightarrow> 0)
       (fst (sendMessage post ''gpt-4'' messages keys0 (st\<lparr>temperature := Some 0\<rparr>)))
     = [7 / 10]"
proof -
  have g: "js_get providers ''gpt-4'' =
     Val \<lparr>cfg_provider = ''openai'', cfg_endpoint = ''https://api.openai.com/v1/chat/completions'',
         cfg_model = ''gpt-4'', cfg_type = ''text''\<rparr>"
    by (simp add: js_get_def providers_def)
  show ?thesis
    by (simp add: text_payload_numbers sendMessage_def g callOpenAI_def keys0_def truthy_def
        Let_def split: sum.splits)
qed

subsection \<open>The model field of a response\<close>

lemma generateImage_model:
  "generateImage post model prompt apiKey st = (calls, Inr r) \<Longrightarrow> r_model r = model"
  by (auto simp: generateImage_def throw_def Let_def image_response_def
      split: if_splits jsval.splits sum.splits)

lemma callOpenAI_model:
  "callOpenAI post endpoint wire messages apiKey st = (calls, Inr r) \<Longrightarrow> r_model r = wire"
  by (auto simp: callOpenAI_def throw_def Let_def openai_response_def
      split: if_splits sum.splits response_data.splits list.splits)

lemma callAnthropic_model:
  "callAnthropic post endpoint wire messages apiKey st = (calls, Inr r) \<Longrightarrow> r_model r = wire"
  by (auto simp: callAnthropic_def throw_def Let_def anthropic_response_def
      split: if_splits sum.splits response_data.splits list.splits)

lemma openai_wire_name:
  assumes "map_of providers model = Some cfg" and "cfg_provider cfg = ''openai''"
  shows "cfg_model cfg = model"
proof -
  from assms(1) have "(model, cfg) \<in> set providers" by (rule map_of_SomeD)
  with assms(2) show ?thesis by (auto simp: providers_def)
qed

text \<open>
  Claim C3, amended. When \<^verbatim>\<open>sendMessage\<close> succeeds, the model field of the response is the
  logical id for an image model and the table entry's \<^verbatim>\<open>model\<close> (the name sent to the
  provider) for a text model; for every OpenAI entry that name is the logical id itself.
\<close>

theorem C3_model_field_is_wire_name_for_text:
  assumes "sendMessage post model messages apiKeys st = (calls, Inr r)"
  shows "\<exists>cfg. js_get providers model = Val cfg
           \<and> r_model r = (if cfg_type cfg = ''image'' then model else cfg_model cfg)
           \<and> (cfg_provider cfg = ''openai'' \<longrightarrow> r_model r = model)"
proof (cases "js_get providers model")
  case (Val cfg)
  then have m: "map_of providers model = Some cfg"
    by (auto simp: js_get_def split: option.splits if_splits)
  have "r_model r = (if cfg_type cfg = ''image'' then model else cfg_model cfg)"
    using assms Val
    by (auto simp: sendMessage_def throw_def
        dest: generateImage_model callOpenAI_model callAnthropic_model
        split: if_splits option.splits)
  moreover have "cfg_provider cfg = ''openai'' \<longrightarrow> cfg_model cfg = model"
    using m by (blast intro: openai_wire_name)
  ultimately show ?thesis using Val by auto
next
  case (Inherited k)
  with assms show ?thesis by (simp add: sendMessage_def throw_def)
next
  case Undefined
  with assms show ?thesis by (simp add: sendMessage_def throw_def)
next
  case Null
  with assms show ?thesis by (simp add: sendMessage_def throw_def)
qed

lemma js_get_providers_sonnet:
  "js_get providers ''claude-3-sonnet'' =
     Val \<lparr>cfg_provider = ''anthropic'', cfg_endpoint = ''https://api.anthropic.com/v1/messages'',
         cfg_model = ''claude-3-sonnet-20240229'', cfg_type = ''text''\<rparr>"
  by (simp add: js_get_def providers_def)

lemma sonnet_answered:
  "sendMessage (answer (AnthropicReply [''hello''] None)) ''claude-3-sonnet''
       [\<lparr>role = ''user'', content = ''hi''\<rparr>] keys0 st0
   = ([sonnet_request], Inr sonnet_response)"
  by (simp add: sendMessage_def js_get_providers_sonnet callAnthropic_def keys0_def truthy_def
      answer_def anthropic_response_def Let_def sonnet_request_def sonnet_response_def)

text \<open>
  As stated, C3 fails for the Anthropic models: the response to \<^verbatim>\<open>claude-3-sonnet\<close> carries
  the model \<^verbatim>\<open>claude-3-sonnet-20240229\<close>.
\<close>

theorem C3_counterexample:
  "map_sum id r_model
     (snd (sendMessage (answer (AnthropicReply [''hello''] None)) ''claude-3-sonnet''
             [\<lparr>role = ''user'', content = ''hi''\<rparr>] keys0 st0))
     = Inr ''claude-3-sonnet-20240229''
   \<and> map_sum id r_model
     (snd (sendMessage (answer (AnthropicReply [''hello''] None)) ''claude-3-sonnet''
             [\<lparr>role = ''user'', content = ''hi''\<rparr>] keys0 st0))
     \<noteq> Inr ''claude-3-sonnet''"
  by (simp add: sonnet_answered sonnet_response_def)

theorem C3_witness:
  "sendMessage (answer (AnthropicReply [''hello''] None)) ''claude-3-sonnet''
       [\<lparr>role = ''user'', content = ''hi''\<rparr>] keys0 st0
     = ([sonnet_request], Inr sonnet_response)
   \<and> r_model sonnet_response = ''claude-3-sonnet-20240229''
   \<and> (\<exists>cfg. js_get providers ''claude-3-sonnet'' = Val cfg
          \<and> r_model sonnet_response
              = (if cfg_type cfg = ''image'' then ''claude-3-sonnet'' else cfg_model cfg)
          \<and> (cfg_provider cfg = ''openai'' \<longrightarrow> r_model sonnet_response = ''claude-3-sonnet''))"
  using C3_model_field_is_wire_name_for_text [OF sonnet_answered] sonnet_answered
  by (simp add: sonnet_response_def)

subsection \<open>The Anthropic payload\<close>

lemma find_system_first:
  assumes "messages = pre @ s # rest" and "role s = ''system''"
    and "\<forall>m \<in> set pre. role m \<noteq> ''system''"
  shows "find (\<lambda>msg. role msg = ''system'') messages = Some s"
  using assms by (induction pre arbitrary: messages) auto

lemma find_system_none:
  "(\<forall>m \<in> set messages. role m \<noteq> ''system'') \<Longrightarrow> find (\<lambda>msg. role msg = ''system'') messages = None"
  by (simp add: find_None_iff)

lemma callAnthropic_answered:
  assumes "truthy apiKey"
    and "post \<lparr>url = endpoint, body = Chat (anthropic_payload wire messages st),
               headers = [(''x-api-key'', the apiKey), (''Content-Type'', ''application/json''),
                          (''anthropic-version'', ''2023-06-01'')],
               timeout = 30000\<rparr> = Inr (AnthropicReply (block # blocks) u)"
  shows "map body (fst (callAnthropic post endpoint wire messages apiKey st))
           = [Chat (anthropic_payload wire messages st)]"
    and "map_sum id r_content (snd (callAnthropic post endpoint wire messages apiKey st)) = Inr block"
  using assms by (simp_all add: callAnthropic_def Let_def anthropic_response_def)

text \<open>
  Claim C4, amended. When \<^verbatim>\<open>callAnthropic\<close> has a key and the provider answers with at least
  one content block, the one request posted carries \<open>anthropic_payload\<close>, in which
  \<^item> the system field is absent when no message has the role \<^verbatim>\<open>system\<close>, and is otherwise
    the content of the first system message, wherever it stands in the list;
  \<^item> the messages are the non-system messages in their order, with their contents, each with
    the role \<^verbatim>\<open>assistant\<close> if that was its role and \<^verbatim>\<open>user\<close> otherwise;
  \<^item> when no system message stands after the head of the list, both agree with the
    specification's wording (\<open>spec_system\<close>, \<open>spec_conversation\<close>);
  and the content of the response is the text of the first block.
\<close>

theorem C4_anthropic_translation:
  assumes "truthy apiKey"
    and "post \<lparr>url = endpoint, body = Chat (anthropic_payload wire messages st),
               headers = [(''x-api-key'', the apiKey), (''Content-Type'', ''application/json''),
                          (''anthropic-version'', ''2023-06-01'')],
               timeout = 30000\<rparr> = Inr (AnthropicReply (block # blocks) u)"
  shows "map body (fst (callAnthropic post endpoint wire messages apiKey st))
           = [Chat (anthropic_payload wire messages st)]
       \<and> ((\<forall>m \<in> set messages. role m \<noteq> ''system'') \<longrightarrow>
            cp_system (anthropic_payload wire messages st) = None)
       \<and> (\<forall>pre s rest. messages = pre @ s # rest \<and> role s = ''system''
              \<and> (\<forall>m \<in> set pre. role m \<noteq> ''system'') \<longrightarrow>
            cp_system (anthropic_payload wire messages st) = Some (content s))
       \<and> map content (cp_messages (anthropic_payload wire messages st))
           = map content (filter (\<lambda>m. role m \<noteq> ''system'') messages)
       \<and> map role (cp_messages (anthropic_payload wire messages st))
           = map (\<lambda>m. if role m = ''assistant'' then ''assistant'' else ''user'')
               (filter (\<lambda>m. role m \<noteq> ''system'') messages)
       \<and> ((\<forall>m \<in> set (tl messages). role m \<noteq> ''system'') \<longrightarrow>
            cp_system (anthropic_payload wire messages st) = spec_system messages
            \<and> cp_messages (anthropic_payload wire messages st) = spec_conversation messages)
       \<and> map_sum id r_content (snd (callAnthropic post endpoint wire messages apiKey st)) = Inr block"
proof (intro conjI allI impI)
  show "map body (fst (callAnthropic post endpoint wire messages apiKey st))
           = [Chat (anthropic_payload wire messages st)]"
    using assms by (rule callAnthropic_answered(1))
  show "map_sum id r_content (snd (callAnthropic post endpoint wire messages apiKey st)) = Inr block"
    using assms by (rule callAnthropic_answered(2))
  show "map content (cp_messages (anthropic_payload wire messages st))
           = map content (filter (\<lambda>m. role m \<noteq> ''system'') messages)"
    by (simp add: anthropic_payload_def Let_def comp_def)
  show "map role (cp_messages (anthropic_payload wire messages st))
           = map (\<lambda>m. if role m = ''assistant'' then ''assistant'' else ''user'')
               (filter (\<lambda>m. role m \<noteq> ''system'') messages)"
    by (simp add: anthropic_payload_def Let_def comp_def)
next
  assume "\<forall>m \<in> set messages. role m \<noteq> ''system''"
  then show "cp_system (anthropic_payload wire messages st) = None"
    by (simp add: anthropic_payload_def Let_def find_system_none)
next
  fix pre s rest
  assume "messages = pre @ s # rest \<and> role s = ''system''
              \<and> (\<forall>m \<in> set pre. role m \<noteq> ''system'')"
  then have "find (\<lambda>msg. role msg = ''system'') messages = Some s"
    using find_system_first by blast
  then show "cp_system (anthropic_payload wire messages st) = Some (content s)"
    by (simp add: anthropic_payload_def Let_def)
next
  assume t: "\<forall>m \<in> set (tl messages). role m \<noteq> ''system''"
  then have f: "filter (\<lambda>m. role m \<noteq> ''system'') (tl messages) = tl messages"
    by (simp add: filter_id_conv)
  show "cp_system (anthropic_payload wire messages st) = spec_system messages"
    using t by (cases messages) (auto simp: anthropic_payload_def Let_def spec_system_def find_system_none)
  show "cp_messages (anthropic_payload wire messages st) = spec_conversation messages"
    using f by (cases messages) (auto simp: anthropic_payload_def Let_def spec_conversation_def)
qed

text \<open>
  As stated, C4 fails when a system message does not lead the list: it is still taken out of
  the messages and sent as the system field.
\<close>

theorem C4_counterexample:
  "cp_system (anthropic_payload ''claude-3-opus-20240229'' late_system st0) \<noteq> spec_system late_system
   \<and> cp_messages (anthropic_payload ''claude-3-opus-20240229'' late_system st0)
       \<noteq> spec_conversation late_system"
  by (simp add: anthropic_payload_def late_system_def spec_system_def spec_conversation_def Let_def)

theorem C4_witness:
  "map body (fst (callAnthropic (answer (AnthropicReply [''hello'', ''more''] None))
                    ''https://api.anthropic.com/v1/messages'' ''claude-3-opus-20240229''
                    lead_system (Some ''sk-ant-test'') st0))
     = [Chat (anthropic_payload ''claude-3-opus-20240229'' lead_system st0)]
   \<and> cp_system (anthropic_payload ''claude-3-opus-20240229'' lead_system st0) = Some ''be brief''
   \<and> cp_messages (anthropic_payload ''claude-3-opus-20240229'' lead_system st0)
       = [\<lparr>role = ''user'', content = ''hi''\<rparr>, \<lparr>role = ''assistant'', content = ''hello''\<rparr>,
          \<lparr>role = ''user'', content = ''42''\<rparr>]
   \<and> map_sum id r_content
         (snd (callAnthropic (answer (AnthropicReply [''hello'', ''more''] None))
                 ''https://api.anthropic.com/v1/messages'' ''claude-3-opus-20240229''
                 lead_system (Some ''sk-ant-test'') st0))
       = Inr ''hello''"
proof -
  have k: "truthy (Some ''sk-ant-test'')" by (simp add: truthy_def)
  have a: "answer (AnthropicReply (''hello'' # [''more'']) None)
             \<lparr>url = ''https://api.anthropic.com/v1/messages'',
               body = Chat (anthropic_payload ''claude-3-opus-20240229'' lead_system st0),
               headers = [(''x-api-key'', the (Some ''sk-ant-test'')),
                          (''Content-Type'', ''application/json''),
                          (''anthropic-version'', ''2023-06-01'')],
               timeout = 30000\<rparr> = Inr (AnthropicReply (''hello'' # [''more'']) None)"
    by (simp add: answer_def)
  have t: "\<forall>m \<in> set (tl lead_system). role m \<noteq> ''system''"
    by (simp add: lead_system_def)
  have s: "spec_system lead_system = Some ''be brief''"
    by (simp add: spec_system_def lead_system_def)
  have c: "spec_conversation lead_system
       = [\<lparr>role = ''user'', content = ''hi''\<rparr>, \<lparr>role = ''assistant'', content = ''hello''\<rparr>,
          \<lparr>role = ''user'', content = ''42''\<rparr>]"
    by (simp add: spec_conversation_def lead_system_def)
  show ?thesis
    using C4_anthropic_translation
      [where post = "answer (AnthropicReply (''hello'' # [''more'']) None)", OF k a] t s c
    by simp
qed

section \<open>Properties of the credential store in Settings.js\<close>

subsection \<open>Hexadecimal text\<close>

lemma hex_val_hex_digit_all: "\<forall>n \<in> set [0..<16]. hex_val (hex_digit n) = Some n"
  by code_simp

lemma hex_val_hex_digit: "n < 16 \<Longrightarrow> hex_val (hex_digit n) = Some n"
  using hex_val_hex_digit_all by simp

lemma hex_digit_not_colon: "hex_digit n \<noteq> CHR '':''"
proof -
  have "hex_digit n \<in> set ''0123456789abcdef''"
    unfolding hex_digit_def by (rule nth_mem) simp
  then show ?thesis by auto
qed

lemma byte_of_digits: "(of_nat (16 * (unat b div 16) + unat b mod 16) :: byte) = b"
  by simp

lemma hex_decode_byte: "hex_decode (hex_byte b @ s) = b # hex_decode s"
proof -
  have "unat b < 2 ^ LENGTH(8)" by (rule unsigned_less)
  then have "unat b < 256" by simp
  then have hi: "unat b div 16 < 16" by simp
  have lo: "unat b mod 16 < 16" by simp
  have "hex_decode (hex_byte b @ s)
          = of_nat (16 * (unat b div 16) + unat b mod 16) # hex_decode s"
    unfolding hex_byte_def by (simp only: append_Cons append_Nil hex_decode.simps
        hex_val_hex_digit [OF hi] hex_val_hex_digit [OF lo] option.case)
  then show ?thesis by (simp only: byte_of_digits)
qed

lemma hex_decode_encode: "hex_decode (hex_encode bs) = bs"
  by (induction bs) (simp_all add: hex_encode_def hex_decode_byte)

lemma colon_not_in_hex: "CHR '':'' \<notin> set (hex_encode bs)"
  by (auto simp: hex_encode_def hex_byte_def hex_digit_not_colon hex_digit_not_colon [THEN not_sym])

subsection \<open>Splitting\<close>

lemma split_on_no_separator: "c \<notin> set s \<Longrightarrow> split_on c s = [s]"
  by (induction s) auto

lemma split_on_first: "c \<notin> set a \<Longrightarrow> split_on c (a @ c # b) = a # split_on c b"
  by (induction a) auto

lemma split_hex_pair:
  "split_on CHR '':'' (hex_encode iv @ CHR '':'' # hex_encode ct) = [hex_encode iv, hex_encode ct]"
  by (simp only: split_on_first [OF colon_not_in_hex] split_on_no_separator [OF colon_not_in_hex])

subsection \<open>Text codec\<close>

lemma utf8_decode_encode: "utf8_decode (utf8_encode s) = s"
proof -
  have "char_of (unat (of_nat (of_char c) :: byte)) = c" for c :: char
  proof -
    have "(of_char c :: nat) < 256" by simp
    then have "unat (of_nat (of_char c) :: byte) = of_char c"
      by (simp add: unat_of_nat)
    then show ?thesis by simp
  qed
  then show ?thesis
    by (simp add: utf8_decode_def utf8_encode_def comp_def)
qed

subsection \<open>Encrypting and decrypting\<close>

lemma getEncryptionKey_secret:
  "ENCRYPTION_KEY e' = ENCRYPTION_KEY e \<Longrightarrow> getEncryptionKey c e' = getEncryptionKey c e"
  by (simp add: getEncryptionKey_def)

lemma encryptApiKey_ok:
  "aes_encrypt c (getEncryptionKey c e) iv (utf8_encode k) = Inr ct \<Longrightarrow>
     encryptApiKey c e iv k = Inr (hex_encode iv @ CHR '':'' # hex_encode ct)"
  by (simp add: encryptApiKey_def)

lemma length_hex_encode: "length (hex_encode bs) = 2 * length bs"
  by (induction bs) (simp_all add: hex_encode_def hex_byte_def)

lemma decryptApiKey_pair:
  "decryptApiKey c e (hex_encode iv @ CHR '':'' # hex_encode ct)
     = (case aes_decrypt c (getEncryptionKey c e) iv ct of
          Inl msg \<Rightarrow> Inl (Error msg)
        | Inr decrypted \<Rightarrow> Inr (utf8_decode decrypted))"
proof -
  have "\<not> odd (length (hex_encode ct))"
    by (simp add: length_hex_encode)
  then show ?thesis
    unfolding decryptApiKey_def Let_def split_hex_pair
    by (simp only: list.case hex_decode_encode if_False)
qed

lemma decryptApiKey_ok:
  assumes "aes_decrypt c (getEncryptionKey c e) iv ct = Inr (utf8_encode k)"
  shows "decryptApiKey c e (hex_encode iv @ CHR '':'' # hex_encode ct) = Inr k"
  by (simp only: decryptApiKey_pair assms sum.case utf8_decode_encode)

lemma setApiKey_ok:
  assumes "db_err d = None"
    and "encryptApiKey c e iv k = Inr stored"
  shows "setApiKey c e iv d provider k
           = (d\<lparr>api_keys_table := (api_keys_table d)(provider \<mapsto> stored)\<rparr>, Inr (provider, True))"
  unfolding setApiKey_def by (simp only: assms sum.case option.case)

lemma getActualApiKey_stored:
  assumes "db_err d = None"
    and "api_keys_table d provider = Some stored"
    and "stored \<noteq> []"
    and "decryptApiKey c e stored = Inr k"
  shows "getActualApiKey c e d provider = Inr (Val k)"
  unfolding getActualApiKey_def by (simp only: assms sum.case option.case if_True not_False_eq_True)

text \<open>
  Claim C1. Let the database be usable, \<open>iv\<close> the 16 random bytes of the call, and the
  cipher of the crypto module encrypt the key's bytes to \<open>ct\<close> and decrypt \<open>ct\<close> back to
  them under the derived key and \<open>iv\<close>. Then for every provider name and every printable
  ASCII key \<open>k\<close> (of any length, so also of length 10 to 200), \<^verbatim>\<open>setApiKey\<close> stores the
  hexadecimal IV, a colon and the hexadecimal ciphertext, and \<^verbatim>\<open>getActualApiKey\<close> on the
  resulting database returns exactly \<open>k\<close>, in any environment with the same encryption
  secret.
\<close>

theorem C1_credential_round_trip:
  assumes "db_err d = None"
    and "ENCRYPTION_KEY e' = ENCRYPTION_KEY e"
    and "printable_ascii k"
    and "length iv = 16"
    and "aes_encrypt c (getEncryptionKey c e) iv (utf8_encode k) = Inr ct"
    and "aes_decrypt c (getEncryptionKey c e) iv ct = Inr (utf8_encode k)"
  shows "setApiKey c e iv d provider k
           = (d\<lparr>api_keys_table := (api_keys_table d)(provider \<mapsto> hex_encode iv @ '':'' @ hex_encode ct)\<rparr>,
              Inr (provider, True))
       \<and> getActualApiKey c e' (fst (setApiKey c e iv d provider k)) provider = Inr (Val k)"
proof -
  let ?stored = "hex_encode iv @ CHR '':'' # hex_encode ct"
  let ?d' = "d\<lparr>api_keys_table := (api_keys_table d)(provider \<mapsto> ?stored)\<rparr>"
  have "encryptApiKey c e iv k = Inr ?stored"
    using assms(5) by (rule encryptApiKey_ok)
  with assms(1) have s: "setApiKey c e iv d provider k = (?d', Inr (provider, True))"
    by (rule setApiKey_ok)
  have "getEncryptionKey c e' = getEncryptionKey c e"
    using assms(2) by (rule getEncryptionKey_secret)
  with assms(6) have "aes_decrypt c (getEncryptionKey c e') iv ct = Inr (utf8_encode k)"
    by simp
  then have dec: "decryptApiKey c e' ?stored = Inr k"
    by (rule decryptApiKey_ok)
  have "db_err ?d' = None" using assms(1) by simp
  moreover have "api_keys_table ?d' provider = Some ?stored" by simp
  moreover have "?stored \<noteq> []" by simp
  ultimately have "getActualApiKey c e' ?d' provider = Inr (Val k)"
    using dec by (rule getActualApiKey_stored)
  with s show ?thesis by simp
qed

lemma standin_round_trip:
  assumes "length iv = 16"
  shows "standin_encrypt key iv p = Inr (key_tag key # map (\<lambda>b. b + key_mask key iv) p)"
    and "standin_decrypt key iv (key_tag key # map (\<lambda>b. b + key_mask key iv) p) = Inr p"
  using assms by (simp_all add: standin_encrypt_def standin_decrypt_def comp_def)

subsection \<open>The stand-in cipher on the sample credential\<close>

lemma printable_key0: "printable_ascii key0"
  by (simp add: printable_ascii_def key0_def)

lemma length_iv0: "length iv0 = 16"
  by (simp add: iv0_def)

lemma getEncryptionKey_standin:
  "getEncryptionKey standin_crypto env0 = utf8_encode ''first-secret''"
  "getEncryptionKey standin_crypto env1 = utf8_encode ''second-secret''"
  by (simp_all add: getEncryptionKey_def standin_crypto_def env0_def env1_def js_or_def truthy_def)

lemma standin_encrypts:
  "aes_encrypt standin_crypto (getEncryptionKey standin_crypto env0) iv0 (utf8_encode key0)
     = Inr ct0"
  unfolding getEncryptionKey_standin ct0_def
  by (simp add: standin_crypto_def standin_round_trip(1) [OF length_iv0])

lemma standin_decrypts:
  "aes_decrypt standin_crypto (getEncryptionKey standin_crypto env0) iv0 ct0
     = Inr (utf8_encode key0)"
  unfolding getEncryptionKey_standin ct0_def
  by (simp add: standin_crypto_def standin_round_trip(2) [OF length_iv0])

lemma stored0_eq: "stored0 = hex_encode iv0 @ CHR '':'' # hex_encode ct0"
  by (simp add: stored0_def)

lemma stored0_text:
  "stored0 = ''3c01a75e10ff429908d46b27e0731fb5:db8a82448b7c8a8b4448494a4b4c4d4e4f5047''"
  by code_simp

theorem C1_witness:
  "printable_ascii ''sk-test-1234567890''
   \<and> 10 \<le> length ''sk-test-1234567890'' \<and> length ''sk-test-1234567890'' \<le> 200
   \<and> api_keys_table (fst (setApiKey standin_crypto env0 iv0 db0 ''openai'' ''sk-test-1234567890''))
         ''openai''
       = Some ''3c01a75e10ff429908d46b27e0731fb5:db8a82448b7c8a8b4448494a4b4c4d4e4f5047''
   \<and> getActualApiKey standin_crypto (env0\<lparr>OPENAI_API_KEY := None\<rparr>)
         (fst (setApiKey standin_crypto env0 iv0 db0 ''openai'' ''sk-test-1234567890'')) ''openai''
       = Inr (Val ''sk-test-1234567890'')"
proof -
  have d: "db_err db0 = None" by (simp add: db0_def)
  have s: "ENCRYPTION_KEY (env0\<lparr>OPENAI_API_KEY := None\<rparr>) = ENCRYPTION_KEY env0" by simp
  note rt = C1_credential_round_trip
    [OF d s printable_key0 length_iv0 standin_encrypts standin_decrypts, of "''openai''"]
  from rt have a: "setApiKey standin_crypto env0 iv0 db0 ''openai'' key0
           = (db0\<lparr>api_keys_table := (api_keys_table db0)(''openai'' \<mapsto> stored0)\<rparr>,
              Inr (''openai'', True))"
    unfolding stored0_def by (rule conjunct1)
  from rt have b: "getActualApiKey standin_crypto (env0\<lparr>OPENAI_API_KEY := None\<rparr>)
         (fst (setApiKey standin_crypto env0 iv0 db0 ''openai'' key0)) ''openai''
       = Inr (Val key0)"
    by (rule conjunct2)
  have t: "api_keys_table (fst (setApiKey standin_crypto env0 iv0 db0 ''openai'' key0)) ''openai''
       = Some stored0"
    by (simp add: a)
  have p: "printable_ascii ''sk-test-1234567890''"
    using printable_key0 by (simp add: key0_def)
  show ?thesis
    using p t b unfolding stored0_text key0_def by simp
qed

lemma hex_encode_iv0: "hex_encode iv0 = ''3c01a75e10ff429908d46b27e0731fb5''"
  by code_simp

subsection \<open>Fallback to the environment\<close>

lemma getEnvApiKey_cases:
  assumes "provider \<notin> set Object_prototype_keys"
  shows "getEnvApiKey e provider =
           (if provider = ''openai'' \<and> truthy (OPENAI_API_KEY e) then Val (the (OPENAI_API_KEY e))
            else if provider = ''anthropic'' \<and> truthy (ANTHROPIC_API_KEY e)
              then Val (the (ANTHROPIC_API_KEY e))
            else Null)"
  using assms by (simp add: getEnvApiKey_def js_get_def)


lemma getActualApiKey_fallback:
  assumes "db_err d = None"
    and "api_keys_table d provider = Some key_hash"
    and "decryptApiKey c e key_hash = Inl err"
  shows "getActualApiKey c e d provider = Inr (getEnvApiKey e provider)"
  unfolding getActualApiKey_def
  by (simp only: assms sum.case option.case if_cancel)

text \<open>
  For every provider name that is not a member of \<^verbatim>\<open>Object.prototype\<close>, so for
  \<^verbatim>\<open>openai\<close> and \<^verbatim>\<open>anthropic\<close>: when the database is usable, a row is stored for the
  provider and decrypting it throws, \<^verbatim>\<open>getActualApiKey\<close> does not reject; it resolves to the
  provider's environment variable when that is set and not empty, and to \<^verbatim>\<open>null\<close> otherwise.
\<close>

lemma getActualApiKey_fallback_value:
  assumes "db_err d = None"
    and "api_keys_table d provider = Some key_hash"
    and "decryptApiKey c e key_hash = Inl err"
    and "provider \<notin> set Object_prototype_keys"
  shows "getActualApiKey c e d provider =
           Inr (if provider = ''openai'' \<and> truthy (OPENAI_API_KEY e)
                  then Val (the (OPENAI_API_KEY e))
                else if provider = ''anthropic'' \<and> truthy (ANTHROPIC_API_KEY e)
                  then Val (the (ANTHROPIC_API_KEY e))
                else Null)"
  using getActualApiKey_fallback [OF assms(1-3)] getEnvApiKey_cases [OF assms(4)] by simp

lemma encryptApiKey_standin: "encryptApiKey standin_crypto env0 iv0 key0 = Inr stored0"
  unfolding stored0_eq using standin_encrypts by (rule encryptApiKey_ok)

lemma db1_rows:
  "db_err db1 = None"
  "api_keys_table db1 ''openai'' = Some stored0"
  "api_keys_table db1 ''anthropic'' = Some stored0"
  "api_keys_table db1 ''mistral'' = None"
proof -
  have d: "db_err db0 = None" by (simp add: db0_def)
  have 1: "setApiKey standin_crypto env0 iv0 db0 ''openai'' key0
             = (db0\<lparr>api_keys_table := (api_keys_table db0)(''openai'' \<mapsto> stored0)\<rparr>,
                Inr (''openai'', True))"
    using d encryptApiKey_standin by (rule setApiKey_ok)
  have d': "db_err (db0\<lparr>api_keys_table := (api_keys_table db0)(''openai'' \<mapsto> stored0)\<rparr>) = None"
    by (simp add: db0_def)
  have 2: "db1 = db0\<lparr>api_keys_table := (api_keys_table db0)(''openai'' \<mapsto> stored0,
                                                                ''anthropic'' \<mapsto> stored0)\<rparr>"
    unfolding db1_def 1 fst_conv
    by (simp add: setApiKey_ok [OF d' encryptApiKey_standin])
  show "db_err db1 = None" "api_keys_table db1 ''openai'' = Some stored0"
    "api_keys_table db1 ''anthropic'' = Some stored0" "api_keys_table db1 ''mistral'' = None"
    by (simp_all add: 2 db0_def)
qed

lemma key_tags_differ:
  "key_tag (utf8_encode ''first-secret'') \<noteq> key_tag (utf8_encode ''second-secret'')"
  by (simp add: key_tag_def utf8_encode_def)

lemma decrypt_after_secret_change:
  "decryptApiKey standin_crypto env1 stored0 = Inl (Error ''bad decrypt'')"
  unfolding stored0_eq decryptApiKey_pair getEncryptionKey_standin
  by (simp add: standin_crypto_def standin_decrypt_def length_iv0 key_tags_differ ct0_def)



subsection \<open>Rows that are not of the stored form\<close>

lemma decryptApiKey_odd_length:
  "decryptApiKey standin_crypto env0 (stored0 @ ''a'')
     = Inl (Error (''The argument '' @ [CHR 0x27] @ ''encoding'' @ [CHR 0x27]
                     @ '' is invalid for data of length 39. Received ''
                     @ [CHR 0x27] @ ''hex'' @ [CHR 0x27]))"
  by code_simp

lemma decryptApiKey_no_separator:
  "decryptApiKey standin_crypto env0 ''3c01''
     = Inl (Error ''Invalid initialization vector'')"
  "decryptApiKey standin_crypto env0 ''3c01a75e10ff429908d46b27e0731fb5''
     = Inl (Error (''The '' @ [CHR 0x22] @ ''data'' @ [CHR 0x22]
                     @ '' argument must be of type string or an instance of Buffer, ''
                     @ ''TypedArray, or DataView. Received undefined''))"
  by code_simp+

subsection \<open>Existence of a key\<close>

text \<open>
  Claim C10. When the database is usable, \<^verbatim>\<open>getApiKey\<close> resolves to true exactly when a row
  is stored for the provider; neither the crypto module nor the environment enters the
  answer. So when the stored text cannot be decrypted, \<^verbatim>\<open>getApiKey\<close> still resolves to true
  while \<^verbatim>\<open>getActualApiKey\<close> resolves to the environment fallback.
\<close>

theorem C10_hasKey_is_row_existence:
  assumes "db_err d = None"
  shows "getApiKey d provider = Inr (api_keys_table d provider \<noteq> None)
       \<and> (\<forall>key_hash err. api_keys_table d provider = Some key_hash
              \<and> decryptApiKey c e key_hash = Inl err \<longrightarrow>
            getApiKey d provider = Inr True
            \<and> getActualApiKey c e d provider = Inr (getEnvApiKey e provider))"
  using assms by (auto simp: getApiKey_def getActualApiKey_fallback)

theorem C10_witness:
  "getApiKey db1 ''mistral'' = Inr False
   \<and> getApiKey db1 ''anthropic'' = Inr True
   \<and> getActualApiKey standin_crypto env1 db1 ''anthropic'' = Inr Null
   \<and> getApiKey db1 ''openai'' = Inr True
   \<and> getActualApiKey standin_crypto env1 db1 ''openai'' = Inr (Val ''sk-env-openai'')"
proof -
  have n: "getEnvApiKey env1 ''anthropic'' = Null"
    and v: "getEnvApiKey env1 ''openai'' = Val ''sk-env-openai''"
    by (simp_all add: getEnvApiKey_def js_get_def env1_def env0_def truthy_def)
  from C10_hasKey_is_row_existence [OF db1_rows(1), of "''mistral''"]
  have 1: "getApiKey db1 ''mistral'' = Inr False"
    by (simp add: db1_rows)
  from C10_hasKey_is_row_existence [OF db1_rows(1), of "''anthropic''" standin_crypto env1]
    db1_rows(3) decrypt_after_secret_change
  have 2: "getApiKey db1 ''anthropic'' = Inr True
           \<and> getActualApiKey standin_crypto env1 db1 ''anthropic'' = Inr Null"
    by (simp add: n)
  from C10_hasKey_is_row_existence [OF db1_rows(1), of "''openai''" standin_crypto env1]
    db1_rows(2) decrypt_after_secret_change
  have 3: "getApiKey db1 ''openai'' = Inr True
           \<and> getActualApiKey standin_crypto env1 db1 ''openai'' = Inr (Val ''sk-env-openai'')"
    by (simp add: v)
  from 1 2 3 show ?thesis by blast
qed

end
